theory Spec2Isabelle
  imports Complex_Main "HOL-Library.AList" "HOL-Library.Log_Nat"
begin

section \<open>MCP tools manager v2: data model\<close>

text \<open>
  The development embeds \<^verbatim>\<open>src/aurawell/langchain_agent/mcp_tools_manager_v2.py\<close>.
  Python strings are byte strings in UTF-8 (\<^typ>\<open>string\<close>); the few non-ASCII
  literals of the module are spelled out byte by byte. Python \<^verbatim>\<open>float\<close> values are
  IEEE 754 binary64 numbers (\<open>pyfloat\<close> below), with their rounding, infinities and
  NaN. Counters that start at 0 and are only ever incremented are \<^typ>\<open>nat\<close>.
  Exceptions are values of \<open>py_exception\<close>; a call that may raise returns
  \<open>py_exception + 'a\<close>. Only subclasses of \<^verbatim>\<open>Exception\<close> are modelled (what
  \<^verbatim>\<open>except Exception\<close> catches); logging is not modelled.
\<close>

datatype py_exception =
    ImportError string
  | RuntimeError string
  | ValueError string
  | OverflowError string
  | ZeroDivisionError string
  | OtherException string

text \<open>\<^verbatim>\<open>str(e)\<close>, as the f-string \<^verbatim>\<open>{e}\<close> renders an exception.\<close>

fun str_exc :: "py_exception \<Rightarrow> string" where
  "str_exc (ImportError m) = m"
| "str_exc (RuntimeError m) = m"
| "str_exc (ValueError m) = m"
| "str_exc (OverflowError m) = m"
| "str_exc (ZeroDivisionError m) = m"
| "str_exc (OtherException m) = m"

text \<open>Values of type \<^verbatim>\<open>Any\<close>: tool data and parameter values.\<close>

datatype pyval =
    PNone
  | PBool bool
  | PInt int
  | PStr string
  | PList "pyval list"
  | PDict "(string \<times> pyval) list"

type_synonym params = "(string \<times> pyval) list"

text \<open>\<^verbatim>\<open>parameters.get(key, default)\<close> on an insertion-ordered dictionary.\<close>

definition dict_get :: "params \<Rightarrow> string \<Rightarrow> pyval \<Rightarrow> pyval" where
  "dict_get d k dflt = (case map_of d k of None \<Rightarrow> dflt | Some v \<Rightarrow> v)"

section \<open>Floating-point numbers\<close>

text \<open>
  A Python \<^verbatim>\<open>float\<close>: a finite binary64 number given by its exact rational value
  (\<open>Fin 0\<close> is \<^verbatim>\<open>0.0\<close>), negative zero, the two infinities, or NaN.
\<close>

datatype pyfloat = Fin rat | NegZero | PosInf | NegInf | NaN

definition pow2 :: "int \<Rightarrow> rat" where
  "pow2 e = (if 0 \<le> e then 2 ^ nat e else 1 / 2 ^ nat (- e))"

text \<open>The binary exponent of a positive rational: \<open>2 ^ e \<le> a < 2 ^ (e + 1)\<close>.\<close>

definition ilog2 :: "rat \<Rightarrow> int" where
  "ilog2 a =
     (let d = bitlen (fst (quotient_of a)) - bitlen (snd (quotient_of a))
      in if pow2 d \<le> a then d else d - 1)"

definition round_half_even :: "rat \<Rightarrow> int" where
  "round_half_even m =
     (let n0 = \<lfloor>m\<rfloor>; fr = m - of_int n0
      in if fr < 1 / 2 then n0
         else if 1 / 2 < fr then n0 + 1
         else if even n0 then n0 else n0 + 1)"

text \<open>
  Rounding of an exact value to binary64, to nearest with ties to even: the value is
  rounded to a multiple \<open>n * 2 ^ q\<close> of the spacing at its exponent (53 significant
  bits, subnormal below \<open>2 ^ -1022\<close>). Since \<open>n \<le> 2 ^ 53\<close>, the rounded value reaches
  \<open>2 ^ 1024\<close>, and overflows to an infinity, exactly when \<open>q > 971\<close> or \<open>q = 971\<close> and
  \<open>n = 2 ^ 53\<close>. A negative value that rounds to zero gives negative zero.
\<close>

definition round_to_double :: "rat \<Rightarrow> pyfloat" where
  "round_to_double x =
     (if x = 0 then Fin 0
      else
        let a = \<bar>x\<bar>;
            q = max (ilog2 a) (- 1022) - 52;
            n = round_half_even (a / pow2 q)
        in if 971 < q \<or> (q = 971 \<and> n = 2 ^ 53) then (if 0 < x then PosInf else NegInf)
           else if n = 0 then (if 0 < x then Fin 0 else NegZero)
           else Fin (if 0 < x then of_int n * pow2 q else - (of_int n * pow2 q)))"

definition is_inf :: "pyfloat \<Rightarrow> bool" where
  "is_inf x = (x = PosInf \<or> x = NegInf)"

definition is_zero :: "pyfloat \<Rightarrow> bool" where
  "is_zero x = (x = Fin 0 \<or> x = NegZero)"

text \<open>The sign bit, and the exact value of a finite number.\<close>

fun is_neg :: "pyfloat \<Rightarrow> bool" where
  "is_neg (Fin r) = (r < 0)"
| "is_neg NegZero = True"
| "is_neg PosInf = False"
| "is_neg NegInf = True"
| "is_neg NaN = False"

fun value_of :: "pyfloat \<Rightarrow> rat" where
  "value_of (Fin r) = r"
| "value_of x = 0"

text \<open>The float addition \<^verbatim>\<open>a + b\<close>.\<close>

definition float_add :: "pyfloat \<Rightarrow> pyfloat \<Rightarrow> pyfloat" where
  "float_add a b =
     (if a = NaN \<or> b = NaN then NaN
      else if is_inf a then (if is_inf b \<and> a \<noteq> b then NaN else a)
      else if is_inf b then b
      else if a = NegZero \<and> b = NegZero then NegZero
      else round_to_double (value_of a + value_of b))"

text \<open>
  The float division \<^verbatim>\<open>a / b\<close>, which raises \<^verbatim>\<open>ZeroDivisionError\<close> for a zero
  divisor before anything else is looked at.
\<close>

definition float_truediv :: "pyfloat \<Rightarrow> pyfloat \<Rightarrow> py_exception + pyfloat" where
  "float_truediv a b =
     (if is_zero b then Inl (ZeroDivisionError ''float division by zero'')
      else if a = NaN \<or> b = NaN then Inr NaN
      else if is_inf a
      then (if is_inf b then Inr NaN
            else Inr (if is_neg a \<noteq> is_neg b then NegInf else PosInf))
      else if is_inf b \<or> is_zero a
      then Inr (if is_neg a \<noteq> is_neg b then NegZero else Fin 0)
      else Inr (round_to_double (value_of a / value_of b)))"

text \<open>
  The conversion of a Python \<^verbatim>\<open>int\<close> to \<^verbatim>\<open>float\<close>, correctly rounded, which raises
  \<^verbatim>\<open>OverflowError\<close> when the integer is too large.
\<close>

definition float_of_int :: "int \<Rightarrow> py_exception + pyfloat" where
  "float_of_int n =
     (case round_to_double (of_int n) of
        PosInf \<Rightarrow> Inl (OverflowError ''int too large to convert to float'')
      | NegInf \<Rightarrow> Inl (OverflowError ''int too large to convert to float'')
      | x \<Rightarrow> Inr x)"

text \<open>A bound below which every positive integer converts to a finite, non-zero float.\<close>

definition count_limit :: nat where
  "count_limit = 2 ^ 1023"

text \<open>\<^verbatim>\<open>a / n\<close> for a float \<open>a\<close> and an int \<open>n\<close>: the int is converted first.\<close>

definition float_truediv_int :: "pyfloat \<Rightarrow> int \<Rightarrow> py_exception + pyfloat" where
  "float_truediv_int a n =
     (case float_of_int n of
        Inl e \<Rightarrow> Inl e
      | Inr b \<Rightarrow> float_truediv a b)"

text \<open>The float comparison \<^verbatim>\<open>a == b\<close>: NaN equals nothing, the two zeros are equal.\<close>

definition float_eq :: "pyfloat \<Rightarrow> pyfloat \<Rightarrow> bool" where
  "float_eq a b =
     (if a = NaN \<or> b = NaN then False
      else if is_zero a then is_zero b
      else a = b)"

section \<open>Performance statistics\<close>

record PerformanceStats =
  total_calls :: nat
  successful_calls :: nat
  failed_calls :: nat
  total_execution_time :: pyfloat
  average_execution_time :: pyfloat

type_synonym stats_table = "string \<rightharpoonup> PerformanceStats"

text \<open>
  \<^verbatim>\<open>_update_performance_stats(self, tool_name, success, execution_time)\<close>, on the
  dictionary \<^verbatim>\<open>self.tool_performance_stats\<close>: a missing entry is created with all
  fields zero, then the entry is updated in place, field by field. The function returns
  the table as the call leaves it, together with the exception if the division raised
  (the two assignments before it have then been made).
\<close>

definition update_performance_stats ::
  "stats_table \<Rightarrow> string \<Rightarrow> bool \<Rightarrow> pyfloat \<Rightarrow> (py_exception + unit) \<times> stats_table" where
  "update_performance_stats tps tool_name success execution_time =
     (let stats0 = (case tps tool_name of
                      None \<Rightarrow> \<lparr>total_calls = 0, successful_calls = 0, failed_calls = 0,
                               total_execution_time = Fin 0, average_execution_time = Fin 0\<rparr>
                    | Some s \<Rightarrow> s);
          stats1 = stats0\<lparr>total_calls := total_calls stats0 + 1\<rparr>;
          stats2 = stats1\<lparr>total_execution_time :=
                     float_add (total_execution_time stats1) execution_time\<rparr>
      in case float_truediv_int (total_execution_time stats2) (int (total_calls stats2)) of
           Inl e \<Rightarrow> (Inl e, tps(tool_name \<mapsto> stats2))
         | Inr average \<Rightarrow>
             (let stats3 = stats2\<lparr>average_execution_time := average\<rparr>;
                  stats4 = (if success
                            then stats3\<lparr>successful_calls := successful_calls stats3 + 1\<rparr>
                            else stats3\<lparr>failed_calls := failed_calls stats3 + 1\<rparr>)
              in (Inr (), tps(tool_name \<mapsto> stats4))))"

text \<open>
  A sequence of recorded calls \<open>(tool_name, success, execution_time)\<close>, made in order by
  a caller that does not catch: the first exception ends the sequence.
\<close>

type_synonym recorded_call = "string \<times> bool \<times> pyfloat"

fun record_calls ::
  "stats_table \<Rightarrow> recorded_call list \<Rightarrow> (py_exception + unit) \<times> stats_table" where
  "record_calls tps [] = (Inr (), tps)"
| "record_calls tps ((n, s, t) # cs) =
     (case update_performance_stats tps n s t of
        (Inl e, tps') \<Rightarrow> (Inl e, tps')
      | (Inr _, tps') \<Rightarrow> record_calls tps' cs)"

text \<open>The calls of a sequence that were recorded for one tool.\<close>

definition calls_of :: "string \<Rightarrow> recorded_call list \<Rightarrow> recorded_call list" where
  "calls_of T cs = filter (\<lambda>c. fst c = T) cs"

definition successes :: "recorded_call list \<Rightarrow> nat" where
  "successes cs = length (filter (\<lambda>c. fst (snd c)) cs)"

definition durations :: "recorded_call list \<Rightarrow> pyfloat list" where
  "durations cs = map (\<lambda>c. snd (snd c)) cs"

text \<open>The float sum of a list, accumulated from \<^verbatim>\<open>0.0\<close> from left to right.\<close>

definition float_sum :: "pyfloat list \<Rightarrow> pyfloat" where
  "float_sum ds = foldl float_add (Fin 0) ds"

text \<open>
  The entry that the calls \<open>cs\<close> recorded for one tool leave, where the last division
  did not raise.
\<close>

definition stats_after :: "recorded_call list \<Rightarrow> PerformanceStats option" where
  "stats_after cs =
     (if cs = [] then None
      else case float_truediv_int (float_sum (durations cs)) (int (length cs)) of
             Inl e \<Rightarrow> None
           | Inr average \<Rightarrow>
               Some \<lparr>total_calls = length cs,
                     successful_calls = successes cs,
                     failed_calls = length cs - successes cs,
                     total_execution_time = float_sum (durations cs),
                     average_execution_time = average\<rparr>)"

text \<open>
  The exact arithmetic mean of the values of a list of finite floats, a rational that
  need not be a float.
\<close>

definition exact_mean :: "pyfloat list \<Rightarrow> rat" where
  "exact_mean ds = sum_list (map value_of ds) / of_nat (length ds)"

section \<open>The real and the placeholder path\<close>

text \<open>
  The real interface (\<^verbatim>\<open>MCPToolInterface\<close>, not under src/) is a parameter of the
  model: a record of its methods, each of which returns its data or raises.
  \<^verbatim>\<open>self.real_mcp_interface\<close> is \<open>None\<close> until an interface is installed.
\<close>

record real_interface =
  database_query :: "pyval \<Rightarrow> py_exception + pyval"
  calculator_calculate :: "pyval \<Rightarrow> py_exception + pyval"
  brave_search :: "pyval \<Rightarrow> pyval \<Rightarrow> py_exception + pyval"
  filesystem_read :: "pyval \<Rightarrow> py_exception + pyval"
  filesystem_write :: "pyval \<Rightarrow> pyval \<Rightarrow> py_exception + pyval"
  get_current_time :: "py_exception + pyval"
  call_tool :: "string \<Rightarrow> params \<Rightarrow> py_exception + pyval"

text \<open>The message literals of the raised errors, in UTF-8.\<close>

definition msg_interface_uninitialized :: string where
  "msg_interface_uninitialized =
     [CHR 0xE7, CHR 0x9C, CHR 0x9F, CHR 0xE5, CHR 0xAE, CHR 0x9E, CHR ''M'', CHR ''C'', CHR ''P'',
      CHR 0xE6, CHR 0x8E, CHR 0xA5, CHR 0xE5, CHR 0x8F, CHR 0xA3, CHR 0xE6, CHR 0x9C, CHR 0xAA,
      CHR 0xE5, CHR 0x88, CHR 0x9D, CHR 0xE5, CHR 0xA7, CHR 0x8B, CHR 0xE5, CHR 0x8C, CHR 0x96]"

definition msg_unsupported_database :: string where
  "msg_unsupported_database =
     [CHR 0xE4, CHR 0xB8, CHR 0x8D, CHR 0xE6, CHR 0x94, CHR 0xAF, CHR 0xE6, CHR 0x8C, CHR 0x81,
      CHR 0xE7, CHR 0x9A, CHR 0x84, CHR 0xE6, CHR 0x95, CHR 0xB0, CHR 0xE6, CHR 0x8D, CHR 0xAE,
      CHR 0xE5, CHR 0xBA, CHR 0x93, CHR 0xE6, CHR 0x93, CHR 0x8D, CHR 0xE4, CHR 0xBD, CHR 0x9C,
      CHR '':'', CHR '' '']"

definition msg_unsupported_calculator :: string where
  "msg_unsupported_calculator =
     [CHR 0xE4, CHR 0xB8, CHR 0x8D, CHR 0xE6, CHR 0x94, CHR 0xAF, CHR 0xE6, CHR 0x8C, CHR 0x81,
      CHR 0xE7, CHR 0x9A, CHR 0x84, CHR 0xE8, CHR 0xAE, CHR 0xA1, CHR 0xE7, CHR 0xAE, CHR 0x97,
      CHR 0xE5, CHR 0x99, CHR 0xA8, CHR 0xE6, CHR 0x93, CHR 0x8D, CHR 0xE4, CHR 0xBD, CHR 0x9C,
      CHR '':'', CHR '' '']"

definition msg_unsupported_search :: string where
  "msg_unsupported_search =
     [CHR 0xE4, CHR 0xB8, CHR 0x8D, CHR 0xE6, CHR 0x94, CHR 0xAF, CHR 0xE6, CHR 0x8C, CHR 0x81,
      CHR 0xE7, CHR 0x9A, CHR 0x84, CHR 0xE6, CHR 0x90, CHR 0x9C, CHR 0xE7, CHR 0xB4, CHR 0xA2,
      CHR 0xE6, CHR 0x93, CHR 0x8D, CHR 0xE4, CHR 0xBD, CHR 0x9C, CHR '':'', CHR '' '']"

definition msg_unsupported_filesystem :: string where
  "msg_unsupported_filesystem =
     [CHR 0xE4, CHR 0xB8, CHR 0x8D, CHR 0xE6, CHR 0x94, CHR 0xAF, CHR 0xE6, CHR 0x8C, CHR 0x81,
      CHR 0xE7, CHR 0x9A, CHR 0x84, CHR 0xE6, CHR 0x96, CHR 0x87, CHR 0xE4, CHR 0xBB, CHR 0xB6,
      CHR 0xE7, CHR 0xB3, CHR 0xBB, CHR 0xE7, CHR 0xBB, CHR 0x9F, CHR 0xE6, CHR 0x93, CHR 0x8D,
      CHR 0xE4, CHR 0xBD, CHR 0x9C, CHR '':'', CHR '' '']"

definition msg_unsupported_time :: string where
  "msg_unsupported_time =
     [CHR 0xE4, CHR 0xB8, CHR 0x8D, CHR 0xE6, CHR 0x94, CHR 0xAF, CHR 0xE6, CHR 0x8C, CHR 0x81,
      CHR 0xE7, CHR 0x9A, CHR 0x84, CHR 0xE6, CHR 0x97, CHR 0xB6, CHR 0xE9, CHR 0x97, CHR 0xB4,
      CHR 0xE6, CHR 0x93, CHR 0x8D, CHR 0xE4, CHR 0xBD, CHR 0x9C, CHR '':'', CHR '' '']"

text \<open>The per-tool adapters \<^verbatim>\<open>_call_real_database\<close> ... \<^verbatim>\<open>_call_real_time\<close>.\<close>

definition call_real_database ::
  "real_interface \<Rightarrow> string \<Rightarrow> params \<Rightarrow> py_exception + pyval" where
  "call_real_database ri action parameters =
     (if action = ''query''
      then database_query ri (dict_get parameters ''sql'' (PStr ''''))
      else Inl (ValueError (msg_unsupported_database @ action)))"

definition call_real_calculator ::
  "real_interface \<Rightarrow> string \<Rightarrow> params \<Rightarrow> py_exception + pyval" where
  "call_real_calculator ri action parameters =
     (if action = ''calculate''
      then calculator_calculate ri (dict_get parameters ''expression'' (PStr ''''))
      else Inl (ValueError (msg_unsupported_calculator @ action)))"

definition call_real_search ::
  "real_interface \<Rightarrow> string \<Rightarrow> params \<Rightarrow> py_exception + pyval" where
  "call_real_search ri action parameters =
     (if action = ''search''
      then brave_search ri (dict_get parameters ''query'' (PStr ''''))
                           (dict_get parameters ''count'' (PInt 5))
      else Inl (ValueError (msg_unsupported_search @ action)))"

definition call_real_filesystem ::
  "real_interface \<Rightarrow> string \<Rightarrow> params \<Rightarrow> py_exception + pyval" where
  "call_real_filesystem ri action parameters =
     (if action = ''read_file''
      then filesystem_read ri (dict_get parameters ''path'' (PStr ''''))
      else if action = ''write_file''
      then filesystem_write ri (dict_get parameters ''path'' (PStr ''''))
                               (dict_get parameters ''content'' (PStr ''''))
      else Inl (ValueError (msg_unsupported_filesystem @ action)))"

definition call_real_time ::
  "real_interface \<Rightarrow> string \<Rightarrow> params \<Rightarrow> py_exception + pyval" where
  "call_real_time ri action parameters =
     (if action = ''get_time''
      then get_current_time ri
      else Inl (ValueError (msg_unsupported_time @ action)))"

text \<open>The dictionary \<^verbatim>\<open>tool_mapping\<close> of \<^verbatim>\<open>_call_real_mcp_tool\<close>.\<close>

definition tool_mapping ::
  "real_interface \<Rightarrow> (string \<times> (string \<Rightarrow> params \<Rightarrow> py_exception + pyval)) list" where
  "tool_mapping ri =
     [(''database_sqlite'', call_real_database ri),
      (''calculator'', call_real_calculator ri),
      (''brave_search'', call_real_search ri),
      (''filesystem'', call_real_filesystem ri),
      (''time'', call_real_time ri)]"

text \<open>
  \<^verbatim>\<open>_call_real_mcp_tool\<close>, on the value of \<^verbatim>\<open>self.real_mcp_interface\<close>: the
  guard on the interface comes first, then the adapter of a mapped tool name, else the
  generic call on the interface.
\<close>

definition call_real_mcp_tool ::
  "real_interface option \<Rightarrow> string \<Rightarrow> string \<Rightarrow> params \<Rightarrow> py_exception + pyval" where
  "call_real_mcp_tool real_mcp_interface tool_name action parameters =
     (case real_mcp_interface of
        None \<Rightarrow> Inl (RuntimeError msg_interface_uninitialized)
      | Some ri \<Rightarrow>
          (case map_of (tool_mapping ri) tool_name of
             Some adapter \<Rightarrow> adapter action parameters
           | None \<Rightarrow> call_tool ri action parameters))"

text \<open>
  \<^verbatim>\<open>_call_placeholder_tool\<close>: the placeholder interface (not under src/) is the
  parameter \<open>placeholder_call_tool\<close>, called with \<^verbatim>\<open>timeout=10.0\<close>; the result
  object it returns is represented by its \<^verbatim>\<open>data\<close> attribute.
\<close>

definition call_placeholder_tool ::
  "(string \<Rightarrow> string \<Rightarrow> params \<Rightarrow> pyfloat \<Rightarrow> py_exception + pyval) \<Rightarrow>
   string \<Rightarrow> string \<Rightarrow> params \<Rightarrow> py_exception + pyval" where
  "call_placeholder_tool placeholder_call_tool tool_name action parameters =
     (case placeholder_call_tool tool_name action parameters (Fin 10) of
        Inl e \<Rightarrow> Inl e
      | Inr result_data \<Rightarrow> Inr result_data)"

section \<open>Tool modes and call results\<close>

text \<open>
  Modelled from the spec: the enumeration \<^verbatim>\<open>ToolExecutionMode\<close> of module
  \<^verbatim>\<open>mcp_tools_enhanced\<close>, which is not under src/ ("ExecutionMode: enumeration
  {Real, Placeholder, Hybrid}"). The manager uses its members \<^verbatim>\<open>REAL\<close>,
  \<^verbatim>\<open>PLACEHOLDER\<close> and \<^verbatim>\<open>HYBRID\<close>.
\<close>

datatype ToolExecutionMode = REAL | PLACEHOLDER | HYBRID

datatype ToolMode = REAL_MCP | PLACEHOLDER | HYBRID

text \<open>\<^verbatim>\<open>ToolMode.value\<close>.\<close>

fun ToolMode_value :: "ToolMode \<Rightarrow> string" where
  "ToolMode_value ToolMode.REAL_MCP = ''real_mcp''"
| "ToolMode_value ToolMode.PLACEHOLDER = ''placeholder''"
| "ToolMode_value ToolMode.HYBRID = ''hybrid''"

text \<open>
  Modelled from the spec: the result type of \<^verbatim>\<open>EnhancedMCPTools.call_tool\<close> (module
  \<^verbatim>\<open>mcp_tools_enhanced\<close>, not under src/), the spec's CallResult
  "{success, data, tool_name, mode_used, error, execution_time}". These are exactly the
  attributes that \<^verbatim>\<open>call_tool_smart\<close> reads.
\<close>

record CallResult =
  success :: bool
  data :: pyval
  tool_name :: string
  mode_used :: ToolExecutionMode
  error :: "string option"
  execution_time :: pyfloat

text \<open>The dataclass \<^verbatim>\<open>ToolCallResult\<close>.\<close>

record ToolCallResult =
  success :: bool
  result :: pyval
  tool_name :: string
  mode_used :: ToolMode
  error :: "string option"
  execution_time :: pyfloat

section \<open>The enhanced tools component\<close>

text \<open>
  Modelled from the spec: \<^verbatim>\<open>EnhancedMCPTools\<close> and its method \<^verbatim>\<open>call_tool\<close>
  (module \<^verbatim>\<open>mcp_tools_enhanced\<close>, not under src/), the spec's smart dispatcher.
  The two capability backends are the fields \<open>real_backend\<close> and
  \<open>placeholder_backend\<close> ("call(tool_name, action, parameters) -> raw result or
  failure"). The wall-clock duration that a call is measured to take is the field
  \<open>elapsed\<close>, an input of the model. The component keeps its own per-tool statistics.
\<close>

record EnhancedMCPTools =
  mode :: ToolExecutionMode
  real_backend :: "string \<Rightarrow> string \<Rightarrow> params \<Rightarrow> py_exception + pyval"
  placeholder_backend :: "string \<Rightarrow> string \<Rightarrow> params \<Rightarrow> py_exception + pyval"
  elapsed :: pyfloat
  recorded :: stats_table

text \<open>
  Modelled from the spec: "Real: attempt real only; Placeholder: attempt placeholder
  only; Hybrid: attempt real, and if it fails for any reason, attempt placeholder";
  a failure is "converted to a failed CallResult with a descriptive error string", and
  \<open>mode_used\<close> is the backend that was attempted last. This is the result that one
  backend outcome is turned into.
\<close>

definition backend_result ::
  "EnhancedMCPTools \<Rightarrow> string \<Rightarrow> ToolExecutionMode \<Rightarrow> py_exception + pyval \<Rightarrow> CallResult" where
  "backend_result et tool_name' used outcome =
     (case outcome of
        Inr d \<Rightarrow>
          \<lparr>CallResult.success = True, data = d, CallResult.tool_name = tool_name',
           CallResult.mode_used = used, CallResult.error = None,
           CallResult.execution_time = elapsed et\<rparr>
      | Inl e \<Rightarrow>
          \<lparr>CallResult.success = False, data = PNone, CallResult.tool_name = tool_name',
           CallResult.mode_used = used, CallResult.error = Some (str_exc e),
           CallResult.execution_time = elapsed et\<rparr>)"

text \<open>
  Modelled from the spec: the mode resolver of the dispatcher (spec 4.2), total on the
  three modes; in hybrid mode the placeholder backend is asked only after the real one
  has failed.
\<close>

definition dispatch ::
  "EnhancedMCPTools \<Rightarrow> string \<Rightarrow> string \<Rightarrow> params \<Rightarrow> CallResult" where
  "dispatch et tool_name' action parameters =
     (case mode et of
        ToolExecutionMode.REAL \<Rightarrow>
          backend_result et tool_name' ToolExecutionMode.REAL
            (real_backend et tool_name' action parameters)
      | ToolExecutionMode.PLACEHOLDER \<Rightarrow>
          backend_result et tool_name' ToolExecutionMode.PLACEHOLDER
            (placeholder_backend et tool_name' action parameters)
      | ToolExecutionMode.HYBRID \<Rightarrow>
          (case real_backend et tool_name' action parameters of
             Inr d \<Rightarrow> backend_result et tool_name' ToolExecutionMode.REAL (Inr d)
           | Inl _ \<Rightarrow>
               backend_result et tool_name' ToolExecutionMode.PLACEHOLDER
                 (placeholder_backend et tool_name' action parameters)))"

text \<open>
  Modelled from the spec: "dispatch always returns a CallResult (never propagates an
  exception to its caller)" and "invokes the Performance Tracker exactly once per
  dispatch call with the final outcome".
\<close>

definition enhanced_call_tool ::
  "EnhancedMCPTools \<Rightarrow> string \<Rightarrow> string \<Rightarrow> params \<Rightarrow>
   (py_exception + CallResult) \<times> EnhancedMCPTools" where
  "enhanced_call_tool et tool_name' action parameters =
     (let r = dispatch et tool_name' action parameters
      in (Inr r,
          et\<lparr>recorded := snd (update_performance_stats (recorded et) tool_name'
                                 (CallResult.success r) (CallResult.execution_time r))\<rparr>))"

section \<open>The manager\<close>

text \<open>
  A workflow step is a dictionary with the keys \<^verbatim>\<open>"tool"\<close>, \<^verbatim>\<open>"action"\<close> and,
  optionally, \<^verbatim>\<open>"parameters"\<close>; a workflow configuration is a dictionary whose key
  \<^verbatim>\<open>"tools"\<close> holds the list of steps (so it is never empty, and truthy).
\<close>

record workflow_step =
  step_tool :: string
  step_action :: string
  step_parameters :: "params option"

record workflow_config =
  tools :: "workflow_step list"

text \<open>
  The attributes that the parent class \<^verbatim>\<open>MCPToolsManager\<close> (not under src/) provides
  and this module reads.
\<close>

record MCPToolsManager =
  workflows :: "string \<rightharpoonup> workflow_config"
  real_mcp_interface :: "real_interface option"
  placeholder_interface :: "string \<Rightarrow> string \<Rightarrow> params \<Rightarrow> pyfloat \<Rightarrow> py_exception + pyval"

text \<open>
  \<^verbatim>\<open>MCPToolsManagerV2(MCPToolsManager)\<close>; \<open>'e\<close> is the state of the enhanced tools
  component held in \<^verbatim>\<open>self.enhanced_tools\<close>.
\<close>

record 'e MCPToolsManagerV2 = MCPToolsManager +
  tool_mode :: ToolMode
  enhanced_tools :: 'e
  tool_performance_stats :: stats_table

text \<open>
  \<^verbatim>\<open>__init__\<close>: \<open>super_init\<close> is what the parent's constructor sets up and
  \<open>new_enhanced_tools\<close> is the constructor \<^verbatim>\<open>EnhancedMCPTools(enhanced_mode)\<close>.
\<close>

definition MCPToolsManagerV2_init ::
  "MCPToolsManager \<Rightarrow> (ToolExecutionMode \<Rightarrow> 'e) \<Rightarrow> ToolMode \<Rightarrow> 'e MCPToolsManagerV2" where
  "MCPToolsManagerV2_init super_init new_enhanced_tools tool_mode' =
     (let enhanced_mode =
            (if tool_mode' = ToolMode.REAL_MCP then ToolExecutionMode.REAL
             else if tool_mode' = ToolMode.PLACEHOLDER then ToolExecutionMode.PLACEHOLDER
             else ToolExecutionMode.HYBRID)
      in \<lparr>workflows = workflows super_init,
          real_mcp_interface = real_mcp_interface super_init,
          placeholder_interface = placeholder_interface super_init,
          tool_mode = tool_mode',
          enhanced_tools = new_enhanced_tools enhanced_mode,
          tool_performance_stats = Map.empty\<rparr>)"

definition msg_real_mode_needs_mcp :: string where
  "msg_real_mode_needs_mcp =
     [CHR 0xE7, CHR 0x9C, CHR 0x9F, CHR 0xE5, CHR 0xAE, CHR 0x9E, CHR ''M'', CHR ''C'', CHR ''P'',
      CHR 0xE6, CHR 0xA8, CHR 0xA1, CHR 0xE5, CHR 0xBC, CHR 0x8F, CHR 0xE9, CHR 0x9C, CHR 0x80,
      CHR 0xE8, CHR 0xA6, CHR 0x81, CHR 0xE5, CHR 0xAE, CHR 0x89, CHR 0xE8, CHR 0xA3, CHR 0x85,
      CHR ''M'', CHR ''C'', CHR ''P'', CHR 0xE4, CHR 0xBE, CHR 0x9D, CHR 0xE8, CHR 0xB5, CHR 0x96]"

text \<open>
  \<^verbatim>\<open>initialize\<close>: \<open>initialize_real_interface\<close> is the method of the enhanced tools
  (not under src/); its failure is swallowed unless the mode is \<^verbatim>\<open>REAL_MCP\<close>.
\<close>

definition initialize ::
  "('e \<Rightarrow> (py_exception + unit) \<times> 'e) \<Rightarrow> 'e MCPToolsManagerV2 \<Rightarrow>
   (py_exception + unit) \<times> 'e MCPToolsManagerV2" where
  "initialize initialize_real_interface self =
     (case initialize_real_interface (enhanced_tools self) of
        (Inr _, et') \<Rightarrow> (Inr (), self\<lparr>enhanced_tools := et'\<rparr>)
      | (Inl (ImportError _), et') \<Rightarrow>
          (if tool_mode self = ToolMode.REAL_MCP
           then Inl (RuntimeError msg_real_mode_needs_mcp) else Inr (),
           self\<lparr>enhanced_tools := et'\<rparr>)
      | (Inl e, et') \<Rightarrow>
          (if tool_mode self = ToolMode.REAL_MCP then Inl e else Inr (),
           self\<lparr>enhanced_tools := et'\<rparr>))"

text \<open>The dictionary \<^verbatim>\<open>mode_mapping\<close> of \<^verbatim>\<open>call_tool_smart\<close>.\<close>

definition mode_mapping :: "(ToolExecutionMode \<times> ToolMode) list" where
  "mode_mapping =
     [(ToolExecutionMode.REAL, ToolMode.REAL_MCP),
      (ToolExecutionMode.PLACEHOLDER, ToolMode.PLACEHOLDER),
      (ToolExecutionMode.HYBRID, ToolMode.HYBRID)]"

text \<open>
  \<^verbatim>\<open>call_tool_smart\<close>: \<open>enhanced_call\<close> is \<^verbatim>\<open>self.enhanced_tools.call_tool\<close>, a
  parameter acting on the state of the enhanced tools. The method has no handler of its
  own and touches no other attribute of the manager.
\<close>

definition call_tool_smart ::
  "('e \<Rightarrow> string \<Rightarrow> string \<Rightarrow> params \<Rightarrow> (py_exception + CallResult) \<times> 'e) \<Rightarrow>
   'e MCPToolsManagerV2 \<Rightarrow> string \<Rightarrow> string \<Rightarrow> params \<Rightarrow>
   (py_exception + ToolCallResult) \<times> 'e MCPToolsManagerV2" where
  "call_tool_smart enhanced_call self tool_name' action parameters =
     (case enhanced_call (enhanced_tools self) tool_name' action parameters of
        (Inl e, et') \<Rightarrow> (Inl e, self\<lparr>enhanced_tools := et'\<rparr>)
      | (Inr enhanced_result, et') \<Rightarrow>
          (Inr \<lparr>success = CallResult.success enhanced_result,
                result = data enhanced_result,
                tool_name = CallResult.tool_name enhanced_result,
                mode_used = (case map_of mode_mapping (CallResult.mode_used enhanced_result) of
                               Some tm \<Rightarrow> tm
                             | None \<Rightarrow> ToolMode.PLACEHOLDER),
                error = CallResult.error enhanced_result,
                execution_time = CallResult.execution_time enhanced_result\<rparr>,
           self\<lparr>enhanced_tools := et'\<rparr>))"

section \<open>Workflows\<close>

text \<open>
  Modelled from the spec: the dataclass \<^verbatim>\<open>WorkflowResult\<close> of module
  \<^verbatim>\<open>mcp_tools_manager\<close> (not under src/), "{success, workflow_name, results,
  execution_summary, metadata}". \<open>metadata\<close> is \<open>None\<close> where the constructor call
  does not pass it. \<open>results\<close> and \<open>metadata\<close> are insertion-ordered dictionaries.
\<close>

record WorkflowResult =
  success :: bool
  workflow_name :: string
  results :: params
  execution_summary :: string
  metadata :: "params option"

definition msg_workflow_missing :: string where
  "msg_workflow_missing =
     [CHR 0xE5, CHR 0xB7, CHR 0xA5, CHR 0xE4, CHR 0xBD, CHR 0x9C, CHR 0xE6, CHR 0xB5, CHR 0x81,
      CHR 0xE9, CHR 0x85, CHR 0x8D, CHR 0xE7, CHR 0xBD, CHR 0xAE, CHR 0xE4, CHR 0xB8, CHR 0x8D,
      CHR 0xE5, CHR 0xAD, CHR 0x98, CHR 0xE5, CHR 0x9C, CHR 0xA8]"

text \<open>The check mark and the cross that open a summary line, each followed by a space.\<close>

definition mark_done :: string where
  "mark_done = [CHR 0xE2, CHR 0x9C, CHR 0x85, CHR '' '']"

definition mark_failed :: string where
  "mark_failed = [CHR 0xE2, CHR 0x9D, CHR 0x8C, CHR '' '']"

definition msg_step_failed :: string where
  "msg_step_failed =
     [CHR '' '', CHR 0xE5, CHR 0xA4, CHR 0xB1, CHR 0xE8, CHR 0xB4, CHR 0xA5, CHR '':'', CHR '' '']"

text \<open>\<^verbatim>\<open>"\n".join(execution_summary)\<close>.\<close>

fun join_lines :: "string list \<Rightarrow> string" where
  "join_lines [] = []"
| "join_lines [l] = l"
| "join_lines (l # ls) = l @ [CHR 0x0A] @ join_lines ls"

text \<open>
  The block that fills in the template: only the key \<^verbatim>\<open>"user_input"\<close> is looked at,
  and only when its value is the string \<^verbatim>\<open>"{{user_input}}"\<close>.
\<close>

definition parameterize :: "string \<Rightarrow> params \<Rightarrow> params" where
  "parameterize user_input parameters =
     (if map_of parameters ''user_input'' \<noteq> None \<and>
         map_of parameters ''user_input'' = Some (PStr ''{{user_input}}'')
      then AList.update ''user_input'' (PStr user_input) parameters
      else parameters)"

text \<open>
  One iteration of the loop of \<^verbatim>\<open>execute_workflow_v2\<close>, on the manager, the
  dictionary \<^verbatim>\<open>results\<close> and the list \<^verbatim>\<open>execution_summary\<close>. \<open>format_2f\<close> is the
  float format \<^verbatim>\<open>:.2f\<close>, a parameter. The assignment to \<^verbatim>\<open>parameters["user_input"]\<close>
  writes into the step's own dictionary, so the iteration also returns the step as it is
  left in the configuration.
\<close>

definition execute_step ::
  "('e \<Rightarrow> string \<Rightarrow> string \<Rightarrow> params \<Rightarrow> (py_exception + CallResult) \<times> 'e) \<Rightarrow>
   (pyfloat \<Rightarrow> string) \<Rightarrow> string \<Rightarrow> 'e MCPToolsManagerV2 \<Rightarrow> params \<Rightarrow> string list \<Rightarrow>
   workflow_step \<Rightarrow> ('e MCPToolsManagerV2 \<times> params \<times> string list) \<times> workflow_step" where
  "execute_step enhanced_call format_2f user_input self res summary step =
     (let tool_name' = step_tool step;
          action = step_action step;
          parameters = parameterize user_input
                         (case step_parameters step of None \<Rightarrow> [] | Some p \<Rightarrow> p);
          step' = (case step_parameters step of
                     None \<Rightarrow> step
                   | Some _ \<Rightarrow> step\<lparr>step_parameters := Some parameters\<rparr>)
      in case call_tool_smart enhanced_call self tool_name' action parameters of
           (Inr r, self') \<Rightarrow>
             ((self',
               AList.update (tool_name' @ ''_'' @ action) (result r) res,
               summary @ [mark_done @ tool_name' @ ''.'' @ action @ '' ('' @
                          ToolMode_value (ToolCallResult.mode_used r) @ '') - '' @
                          format_2f (ToolCallResult.execution_time r) @ ''s'']),
              step')
         | (Inl e, self') \<Rightarrow>
             ((self', res,
               summary @ [mark_failed @ tool_name' @ ''.'' @ action @ msg_step_failed @
                          str_exc e]),
              step'))"

text \<open>The loop over \<^verbatim>\<open>workflow_config["tools"]\<close>.\<close>

fun execute_steps ::
  "('e \<Rightarrow> string \<Rightarrow> string \<Rightarrow> params \<Rightarrow> (py_exception + CallResult) \<times> 'e) \<Rightarrow>
   (pyfloat \<Rightarrow> string) \<Rightarrow> string \<Rightarrow> 'e MCPToolsManagerV2 \<Rightarrow> params \<Rightarrow> string list \<Rightarrow>
   workflow_step list \<Rightarrow>
   'e MCPToolsManagerV2 \<times> params \<times> string list \<times> workflow_step list" where
  "execute_steps enhanced_call format_2f user_input self res summary [] =
     (self, res, summary, [])"
| "execute_steps enhanced_call format_2f user_input self res summary (step # steps) =
     (case execute_step enhanced_call format_2f user_input self res summary step of
        ((self1, res1, summary1), step') \<Rightarrow>
          (case execute_steps enhanced_call format_2f user_input self1 res1 summary1 steps of
             (self2, res2, summary2, steps') \<Rightarrow> (self2, res2, summary2, step' # steps')))"

text \<open>
  \<^verbatim>\<open>execute_workflow_v2\<close>; it returns the result and the manager as the call leaves
  it. \<open>context_arg\<close> is the argument \<^verbatim>\<open>context\<close>, which the method never reads.
\<close>

definition execute_workflow_v2 ::
  "('e \<Rightarrow> string \<Rightarrow> string \<Rightarrow> params \<Rightarrow> (py_exception + CallResult) \<times> 'e) \<Rightarrow>
   (pyfloat \<Rightarrow> string) \<Rightarrow> 'e MCPToolsManagerV2 \<Rightarrow> string \<Rightarrow> string \<Rightarrow> params \<Rightarrow>
   WorkflowResult \<times> 'e MCPToolsManagerV2" where
  "execute_workflow_v2 enhanced_call format_2f self workflow_name' user_input context_arg =
     (case workflows self workflow_name' of
        None \<Rightarrow>
          (\<lparr>success = False, workflow_name = workflow_name', results = [],
            execution_summary = msg_workflow_missing, metadata = None\<rparr>,
           self)
      | Some workflow_config \<Rightarrow>
          (case execute_steps enhanced_call format_2f user_input self [] []
                  (tools workflow_config) of
             (self1, res, summary, steps') \<Rightarrow>
               (\<lparr>success = True, workflow_name = workflow_name', results = res,
                 execution_summary = join_lines summary,
                 metadata = Some
                   [(''tool_mode'', PStr (ToolMode_value (tool_mode self1))),
                    (''total_steps'', PInt (int (length (tools workflow_config)))),
                    (''completed_steps'', PInt (int (length res)))]\<rparr>,
                self1\<lparr>workflows :=
                  (workflows self1)(workflow_name' \<mapsto> workflow_config\<lparr>tools := steps'\<rparr>)\<rparr>)))"

text \<open>
  The outcomes of the successive calls of \<^verbatim>\<open>call_tool_smart\<close> that the loop makes,
  in order: the value bound to \<^verbatim>\<open>result\<close>, or the exception the handler receives.
\<close>

fun step_outcomes ::
  "('e \<Rightarrow> string \<Rightarrow> string \<Rightarrow> params \<Rightarrow> (py_exception + CallResult) \<times> 'e) \<Rightarrow>
   string \<Rightarrow> 'e MCPToolsManagerV2 \<Rightarrow> workflow_step list \<Rightarrow>
   (py_exception + ToolCallResult) list" where
  "step_outcomes enhanced_call user_input self [] = []"
| "step_outcomes enhanced_call user_input self (step # steps) =
     (case call_tool_smart enhanced_call self (step_tool step) (step_action step)
             (parameterize user_input
                (case step_parameters step of None \<Rightarrow> [] | Some p \<Rightarrow> p)) of
        (outcome, self') \<Rightarrow> outcome # step_outcomes enhanced_call user_input self' steps)"

text \<open>
  Vocabulary for the statements about the loop: the parameters dictionary of a step
  (\<^verbatim>\<open>step.get("parameters", {})\<close>), the key \<^verbatim>\<open>f"{tool_name}_{action}"\<close>, the line
  that an outcome appends to the summary, and what an outcome does to \<^verbatim>\<open>results\<close>.
\<close>

definition step_params :: "workflow_step \<Rightarrow> params" where
  "step_params step = (case step_parameters step of None \<Rightarrow> [] | Some p \<Rightarrow> p)"

definition step_key :: "workflow_step \<Rightarrow> string" where
  "step_key step = step_tool step @ ''_'' @ step_action step"

definition summary_line ::
  "(pyfloat \<Rightarrow> string) \<Rightarrow> workflow_step \<Rightarrow> py_exception + ToolCallResult \<Rightarrow> string" where
  "summary_line format_2f step outcome =
     (case outcome of
        Inr r \<Rightarrow> mark_done @ step_tool step @ ''.'' @ step_action step @ '' ('' @
                  ToolMode_value (ToolCallResult.mode_used r) @ '') - '' @
                  format_2f (ToolCallResult.execution_time r) @ ''s''
      | Inl e \<Rightarrow> mark_failed @ step_tool step @ ''.'' @ step_action step @ msg_step_failed @
                  str_exc e)"

definition store_result ::
  "params \<Rightarrow> workflow_step \<times> (py_exception + ToolCallResult) \<Rightarrow> params" where
  "store_result res p =
     (case snd p of
        Inr r \<Rightarrow> AList.update (step_key (fst p)) (result r) res
      | Inl e \<Rightarrow> res)"

section \<open>The module-level accessor\<close>

text \<open>
  The module state: the manager objects created so far (a reference is an index into
  \<open>objects\<close>) and the global \<^verbatim>\<open>_mcp_tools_manager_v2\<close>.
\<close>

record 'e module_state =
  objects :: "'e MCPToolsManagerV2 list"
  mcp_tools_manager_v2 :: "nat option"

text \<open>
  \<^verbatim>\<open>get_mcp_tools_manager_v2\<close>: the global is assigned before \<^verbatim>\<open>initialize\<close> is
  awaited, so an exception of \<^verbatim>\<open>initialize\<close> leaves the new object in the global.
\<close>

definition get_mcp_tools_manager_v2 ::
  "MCPToolsManager \<Rightarrow> (ToolExecutionMode \<Rightarrow> 'e) \<Rightarrow> ('e \<Rightarrow> (py_exception + unit) \<times> 'e) \<Rightarrow>
   'e module_state \<Rightarrow> ToolMode \<Rightarrow> (py_exception + nat) \<times> 'e module_state" where
  "get_mcp_tools_manager_v2 super_init new_enhanced_tools initialize_real_interface st tool_mode' =
     (case mcp_tools_manager_v2 st of
        None \<Rightarrow>
          (let ref = length (objects st);
               obj = MCPToolsManagerV2_init super_init new_enhanced_tools tool_mode';
               st1 = st\<lparr>objects := objects st @ [obj], mcp_tools_manager_v2 := Some ref\<rparr>
           in case initialize initialize_real_interface obj of
                (Inl e, obj') \<Rightarrow> (Inl e, st1\<lparr>objects := (objects st1)[ref := obj']\<rparr>)
              | (Inr _, obj') \<Rightarrow> (Inr ref, st1\<lparr>objects := (objects st1)[ref := obj']\<rparr>))
      | Some ref \<Rightarrow> (Inr ref, st))"

text \<open>A sequence of calls of the accessor, one per requested mode.\<close>

fun get_all ::
  "MCPToolsManager \<Rightarrow> (ToolExecutionMode \<Rightarrow> 'e) \<Rightarrow> ('e \<Rightarrow> (py_exception + unit) \<times> 'e) \<Rightarrow>
   'e module_state \<Rightarrow> ToolMode list \<Rightarrow> (py_exception + nat) list \<times> 'e module_state" where
  "get_all super_init new_enhanced_tools initialize_real_interface st [] = ([], st)"
| "get_all super_init new_enhanced_tools initialize_real_interface st (m # ms) =
     (case get_mcp_tools_manager_v2 super_init new_enhanced_tools initialize_real_interface st m of
        (r, st1) \<Rightarrow>
          (case get_all super_init new_enhanced_tools initialize_real_interface st1 ms of
             (rs, st2) \<Rightarrow> (r # rs, st2)))"

section \<open>Sample inputs\<close>

text \<open>Concrete inputs on which the theorems below are evaluated.\<close>

definition sample_calls :: "recorded_call list" where
  "sample_calls =
     [(''calculator'', True, Fin (1 / 2)), (''time'', False, Fin 1),
      (''calculator'', False, Fin (3 / 2)), (''calculator'', True, Fin 4)]"

text \<open>
  Three calls with the durations \<^verbatim>\<open>0.1\<close>, \<^verbatim>\<open>0.2\<close> and \<^verbatim>\<open>0.3\<close> (a literal denotes the
  float nearest to it), and one call with the duration NaN.
\<close>

definition tenths_calls :: "recorded_call list" where
  "tenths_calls =
     [(''calculator'', True, round_to_double (1 / 10)),
      (''calculator'', True, round_to_double (1 / 5)),
      (''calculator'', False, round_to_double (3 / 10))]"

definition nan_calls :: "recorded_call list" where
  "nan_calls = [(''time'', True, NaN)]"

text \<open>A real interface whose methods answer with what they were asked.\<close>

definition sample_interface :: real_interface where
  "sample_interface =
     \<lparr>database_query = (\<lambda>sql. Inr (PList [PStr ''rows'', sql])),
      calculator_calculate = (\<lambda>expression. Inr (PList [PStr ''value'', expression])),
      brave_search = (\<lambda>query count. Inr (PList [PStr ''hits'', query, count])),
      filesystem_read = (\<lambda>path. Inr (PList [PStr ''content'', path])),
      filesystem_write = (\<lambda>path content. Inr (PList [PStr ''written'', path, content])),
      get_current_time = Inr (PStr ''12:00''),
      call_tool = (\<lambda>action parameters. Inr (PList [PStr ''generic'', PStr action, PDict parameters]))\<rparr>"

text \<open>
  Two stand-ins for \<^verbatim>\<open>self.enhanced_tools.call_tool\<close>, whose state counts the calls
  received. The first answers every call with the parameters it was given; the second
  raises for the tool \<open>broken\<close> and reports a failure for the tool \<open>failing\<close>.
\<close>

definition echo_call_tool ::
  "nat \<Rightarrow> string \<Rightarrow> string \<Rightarrow> params \<Rightarrow> (py_exception + CallResult) \<times> nat" where
  "echo_call_tool n tool_name' action parameters =
     (Inr \<lparr>CallResult.success = True, data = PDict parameters,
           CallResult.tool_name = tool_name',
           CallResult.mode_used = ToolExecutionMode.PLACEHOLDER,
           CallResult.error = None, CallResult.execution_time = Fin 0\<rparr>,
      Suc n)"

definition flaky_call_tool ::
  "nat \<Rightarrow> string \<Rightarrow> string \<Rightarrow> params \<Rightarrow> (py_exception + CallResult) \<times> nat" where
  "flaky_call_tool n tool_name' action parameters =
     (if tool_name' = ''broken'' then (Inl (OtherException ''connection lost''), Suc n)
      else if tool_name' = ''failing''
      then (Inr \<lparr>CallResult.success = False, data = PStr ''partial'',
                 CallResult.tool_name = tool_name',
                 CallResult.mode_used = ToolExecutionMode.REAL,
                 CallResult.error = Some ''unavailable'', CallResult.execution_time = Fin 0\<rparr>,
            Suc n)
      else echo_call_tool n tool_name' action parameters)"

text \<open>What the first stand-in answers to a step, as \<^verbatim>\<open>call_tool_smart\<close> returns it.\<close>

definition echoed :: "string \<Rightarrow> workflow_step \<Rightarrow> py_exception + ToolCallResult" where
  "echoed ui s = Inr \<lparr>ToolCallResult.success = True,
                      result = PDict (parameterize ui (step_params s)),
                      ToolCallResult.tool_name = step_tool s,
                      ToolCallResult.mode_used = ToolMode.PLACEHOLDER,
                      ToolCallResult.error = None, ToolCallResult.execution_time = Fin 0\<rparr>"

text \<open>The format \<^verbatim>\<open>:.2f\<close> on the durations of the samples, which are all 0.\<close>

definition sample_format_2f :: "pyfloat \<Rightarrow> string" where
  "sample_format_2f t = ''0.00''"

definition sample_workflows :: "string \<rightharpoonup> workflow_config" where
  "sample_workflows =
     [''daily_checkin'' \<mapsto>
        \<lparr>tools =
           [\<lparr>step_tool = ''clock'', step_action = ''get_time'', step_parameters = Some []\<rparr>,
            \<lparr>step_tool = ''calculator'', step_action = ''calculate'',
              step_parameters = Some [(''expression'', PStr ''{{user_input}}'')]\<rparr>]\<rparr>,
      ''greeting'' \<mapsto>
        \<lparr>tools =
           [\<lparr>step_tool = ''echo'', step_action = ''say'',
              step_parameters =
                Some [(''user_input'', PStr ''{{user_input}}''), (''lang'', PStr ''en'')]\<rparr>]\<rparr>,
      ''retry'' \<mapsto>
        \<lparr>tools =
           [\<lparr>step_tool = ''failing'', step_action = ''ping'', step_parameters = None\<rparr>,
            \<lparr>step_tool = ''failing'', step_action = ''ping'', step_parameters = None\<rparr>]\<rparr>,
      ''resilient'' \<mapsto>
        \<lparr>tools =
           [\<lparr>step_tool = ''broken'', step_action = ''ping'', step_parameters = None\<rparr>,
            \<lparr>step_tool = ''failing'', step_action = ''ping'', step_parameters = None\<rparr>,
            \<lparr>step_tool = ''calculator'', step_action = ''calculate'',
              step_parameters = Some [(''expression'', PStr ''1+1'')]\<rparr>]\<rparr>]"

definition sample_super :: MCPToolsManager where
  "sample_super =
     \<lparr>workflows = sample_workflows,
      real_mcp_interface = None,
      placeholder_interface = (\<lambda>tool_name' action parameters timeout. Inr (PStr ''stub''))\<rparr>"

definition sample_manager :: "nat MCPToolsManagerV2" where
  "sample_manager = MCPToolsManagerV2_init sample_super (\<lambda>enhanced_mode. 0) ToolMode.HYBRID"

text \<open>
  Enhanced tools with both backends down: the real backend is the real path of this
  module with no interface installed, the placeholder backend is the placeholder path
  of this module over an interface that times out. A manager that holds them.
\<close>

definition offline_tools :: "ToolExecutionMode \<Rightarrow> EnhancedMCPTools" where
  "offline_tools enhanced_mode =
     \<lparr>mode = enhanced_mode,
      real_backend = call_real_mcp_tool None,
      placeholder_backend =
        call_placeholder_tool
          (\<lambda>tool_name' action parameters timeout. Inl (OtherException ''timed out'')),
      elapsed = Fin 0,
      recorded = Map.empty\<rparr>"

definition offline_manager :: "ToolMode \<Rightarrow> EnhancedMCPTools MCPToolsManagerV2" where
  "offline_manager tool_mode' = MCPToolsManagerV2_init sample_super offline_tools tool_mode'"

text \<open>A manager whose statistics table already holds the sample calls.\<close>

definition seen_manager :: "nat MCPToolsManagerV2" where
  "seen_manager =
     sample_manager\<lparr>tool_performance_stats := snd (record_calls Map.empty sample_calls)\<rparr>"

text \<open>The module as loaded: no manager object, the global unset.\<close>

definition fresh_module :: "nat module_state" where
  "fresh_module = \<lparr>objects = [], mcp_tools_manager_v2 = None\<rparr>"

text \<open>
  Two versions of \<^verbatim>\<open>initialize_real_interface\<close> on enhanced tools whose state counts
  the initialisations: one that succeeds and one that raises.
\<close>

definition counting_initialize :: "nat \<Rightarrow> (py_exception + unit) \<times> nat" where
  "counting_initialize n = (Inr (), Suc n)"

definition failing_initialize :: "nat \<Rightarrow> (py_exception + unit) \<times> nat" where
  "failing_initialize n = (Inl (OtherException ''no server''), Suc n)"

section \<open>Floating-point numbers: proofs\<close>

lemma pow2_powi: "pow2 e = 2 powi e"
  by (simp add: pow2_def power_int_def inverse_eq_divide power_one_over)

lemma pow2_pos: "0 < pow2 e"
  by (simp add: pow2_powi)

lemma pow2_mono: "e1 \<le> e2 \<Longrightarrow> pow2 e1 \<le> pow2 e2"
  by (simp add: pow2_powi power_int_increasing)

lemma round_half_even_ge: "\<lfloor>m\<rfloor> \<le> round_half_even m"
  by (simp add: round_half_even_def Let_def)

lemma ilog2_int:
  assumes "1 \<le> n"
  shows "ilog2 (of_int n) = bitlen n - 1" and "pow2 (bitlen n - 1) \<le> of_int n"
proof -
  have b1: "1 \<le> bitlen n"
    using assms by (simp add: bitlen_ge_iff_power)
  have "(2::int) ^ nat (bitlen n - 1) \<le> n"
    using bitlen_bounds [of n] assms by simp
  then have "(of_int ((2::int) ^ nat (bitlen n - 1)) :: rat) \<le> of_int n"
    by (simp only: of_int_le_iff)
  then show p: "pow2 (bitlen n - 1) \<le> of_int n"
    using b1 by (simp add: pow2_def)
  have "bitlen (1::int) = 1"
    by code_simp
  then show "ilog2 (of_int n) = bitlen n - 1"
    using p by (simp add: ilog2_def Let_def)
qed

lemma float_of_int_ok:
  assumes "1 \<le> n" and "n < 2 ^ 1023"
  shows "\<exists>r. float_of_int n = Inr (Fin r) \<and> 0 < r"
proof -
  let ?d = "bitlen n - 1"
  let ?q = "?d - 52"
  let ?m = "of_int n / pow2 ?q :: rat"
  have b1: "1 \<le> bitlen n"
    using assms(1) by (simp add: bitlen_ge_iff_power)
  have b2: "bitlen n \<le> 1023"
    using assms(2) by (simp add: bitlen_le_iff_power)
  have q: "max (ilog2 (of_int n)) (- 1022) - 52 = ?q"
    using ilog2_int(1) [OF assms(1)] b1 by simp
  have "pow2 ?q \<le> pow2 ?d"
    by (rule pow2_mono) simp
  then have "pow2 ?q \<le> of_int n"
    using ilog2_int(2) [OF assms(1)] by simp
  then have "1 \<le> ?m"
    using pow2_pos [of ?q] by (simp add: le_divide_eq)
  then have "1 \<le> \<lfloor>?m\<rfloor>"
    by (simp add: le_floor_iff)
  then have n1: "1 \<le> round_half_even ?m"
    using round_half_even_ge [of ?m] by linarith
  have pos: "(0::rat) < of_int n"
    using assms(1) by simp
  have a: "\<bar>of_int n :: rat\<bar> = of_int n"
    using pos by simp
  have n0: "round_half_even ?m \<noteq> 0" and q971: "\<not> 971 < ?q" "?q \<noteq> 971"
    using n1 b2 by simp_all
  have x0: "(of_int n :: rat) \<noteq> 0"
    using pos by simp
  have "round_to_double (of_int n) = Fin (of_int (round_half_even ?m) * pow2 ?q)"
    unfolding round_to_double_def Let_def a q
    by (simp only: x0 n0 q971 pos if_False if_True simp_thms)
  moreover have "0 < of_int (round_half_even ?m) * pow2 ?q"
    using n1 pow2_pos [of ?q] by simp
  ultimately show ?thesis
    by (simp add: float_of_int_def)
qed

lemma int_count_limit: "k < count_limit \<Longrightarrow> int k < 2 ^ 1023"
proof -
  assume "k < count_limit"
  then have "int k < int (2 ^ 1023)"
    by (simp only: count_limit_def of_nat_less_iff)
  then show ?thesis
    by (simp only: of_nat_power of_nat_numeral)
qed

lemma float_truediv_int_ok:
  assumes "0 < k" and "k < count_limit"
  shows "\<exists>q. float_truediv_int a (int k) = Inr q"
proof -
  have "1 \<le> int k"
    using assms(1) by simp
  then obtain r where r: "float_of_int (int k) = Inr (Fin r)" "0 < r"
    using float_of_int_ok [OF _ int_count_limit [OF assms(2)]] by blast
  then show ?thesis
    by (simp add: float_truediv_int_def float_truediv_def is_zero_def)
qed

section \<open>Performance statistics: proofs\<close>

lemma successes_le: "successes cs \<le> length cs"
  by (simp add: successes_def)

lemma update_stats_entry:
  "\<exists>st. snd (update_performance_stats tps n s t) n = Some st \<and>
        total_calls st = (case tps n of None \<Rightarrow> 0 | Some e \<Rightarrow> total_calls e) + 1"
  by (cases "tps n")
     (auto simp: update_performance_stats_def Let_def split: sum.splits)

lemma update_stats_other:
  "T \<noteq> n \<Longrightarrow> snd (update_performance_stats tps n s t) T = tps T"
  by (auto simp: update_performance_stats_def Let_def split: sum.splits)

lemma record_calls_snoc:
  "record_calls tps (cs @ [(n, s, t)]) =
     (case record_calls tps cs of
        (Inl e, tps') \<Rightarrow> (Inl e, tps')
      | (Inr u, tps') \<Rightarrow> update_performance_stats tps' n s t)"
proof (induction tps cs rule: record_calls.induct)
  case (1 tps)
  show ?case
    by (cases "update_performance_stats tps n s t"; cases "fst (update_performance_stats tps n s t)")
       auto
next
  case (2 tps n' s' t' cs)
  then show ?case
    by (cases "update_performance_stats tps n' s' t'";
        cases "fst (update_performance_stats tps n' s' t')") auto
qed

lemma float_sum_snoc: "float_sum (ds @ [t]) = float_add (float_sum ds) t"
  by (simp add: float_sum_def)

lemma update_after:
  assumes "tps n = stats_after cs" and "length cs < count_limit - 1"
  shows "update_performance_stats tps n s t =
           (Inr (), tps(n := stats_after (cs @ [(n, s, t)])))"
proof -
  have len: "0 < length (cs @ [(n, s, t)])" "length (cs @ [(n, s, t)]) < count_limit"
    using assms(2) by simp_all
  obtain avg where avg: "float_truediv_int (float_sum (durations (cs @ [(n, s, t)])))
      (int (length (cs @ [(n, s, t)]))) = Inr avg"
    using float_truediv_int_ok [OF len] by blast
  have sum: "float_sum (durations (cs @ [(n, s, t)])) = float_add (float_sum (durations cs)) t"
    by (simp add: durations_def float_sum_snoc)
  have after: "stats_after (cs @ [(n, s, t)]) =
      Some \<lparr>total_calls = length cs + 1,
            successful_calls = (if s then successes cs + 1 else successes cs),
            failed_calls = (if s then length cs - successes cs else length cs - successes cs + 1),
            total_execution_time = float_add (float_sum (durations cs)) t,
            average_execution_time = avg\<rparr>"
    using avg sum successes_le [of cs]
    by (auto simp: stats_after_def successes_def Suc_diff_le)
  show ?thesis
  proof (cases "cs = []")
    case True
    then have "tps n = None"
      using assms(1) by (simp add: stats_after_def)
    then show ?thesis
      using avg sum True after
      by (simp add: update_performance_stats_def Let_def durations_def float_sum_def
          successes_def)
  next
    case False
    have l1: "0 < length cs" "length cs < count_limit"
      using False assms(2) by simp_all
    obtain a0 where a0: "float_truediv_int (float_sum (durations cs)) (int (length cs)) = Inr a0"
      using float_truediv_int_ok [OF l1] by blast
    have "tps n = Some \<lparr>total_calls = length cs, successful_calls = successes cs,
                         failed_calls = length cs - successes cs,
                         total_execution_time = float_sum (durations cs),
                         average_execution_time = a0\<rparr>"
      using assms(1) False a0 by (simp add: stats_after_def)
    then show ?thesis
      using avg sum after
      by (simp add: update_performance_stats_def Let_def)
  qed
qed

text \<open>
  From the empty table, and below the bound, no call raises and the entry of a tool is
  determined by the calls recorded for that tool alone.
\<close>

lemma record_calls_table:
  "length calls < count_limit \<Longrightarrow>
   record_calls Map.empty calls = (Inr (), \<lambda>T. stats_after (calls_of T calls))"
proof (induction calls rule: rev_induct)
  case Nil
  show ?case by (simp add: stats_after_def calls_of_def)
next
  case (snoc c cs)
  obtain n s t where c: "c = (n, s, t)" by (cases c)
  let ?tps = "\<lambda>T. stats_after (calls_of T cs)"
  have ih: "record_calls Map.empty cs = (Inr (), ?tps)"
    using snoc by simp
  have "length (calls_of n cs) \<le> length cs"
    by (simp add: calls_of_def)
  then have b: "length (calls_of n cs) < count_limit - 1"
    using snoc.prems by simp
  have u: "update_performance_stats ?tps n s t =
             (Inr (), ?tps(n := stats_after (calls_of n cs @ [(n, s, t)])))"
    by (rule update_after [OF _ b]) simp
  have "?tps(n := stats_after (calls_of n cs @ [(n, s, t)])) =
          (\<lambda>T. stats_after (calls_of T (cs @ [c])))"
    using c by (auto simp: fun_eq_iff calls_of_def)
  then show ?case
    using ih u c by (simp add: record_calls_snoc)
qed

lemma float_eq_refl: "x \<noteq> NaN \<Longrightarrow> float_eq x x"
  by (simp add: float_eq_def)

text \<open>
  Claim C1, as amended. After any sequence of fewer than \<open>2 ^ 1023\<close> calls of
  \<^verbatim>\<open>_update_performance_stats\<close> on an initially empty table, no call raises and, for a
  tool \<open>T\<close> with \<open>N \<ge> 1\<close> of the calls of which \<open>k\<close> reported success, the entry of
  \<open>T\<close> satisfies \<open>successful_calls + failed_calls = total_calls\<close>,
  \<open>total_calls = N > 0\<close>, \<open>successful_calls = k\<close> and \<open>failed_calls = N - k\<close>;
  \<open>total_execution_time\<close> is the float sum of the \<open>N\<close> durations, accumulated from
  \<^verbatim>\<open>0.0\<close> in the order of the calls, and \<open>average_execution_time\<close> is the float
  quotient \<^verbatim>\<open>total_execution_time / total_calls\<close>, to which it compares equal unless
  it is NaN. Since the sequence is arbitrary, this holds after every call.
\<close>

theorem performance_stats_invariant:
  assumes "calls_of T calls \<noteq> []" and "length calls < count_limit"
  shows "fst (record_calls Map.empty calls) = Inr () \<and>
         (\<exists>st. snd (record_calls Map.empty calls) T = Some st \<and>
           successful_calls st + failed_calls st = total_calls st \<and>
           0 < total_calls st \<and>
           total_calls st = length (calls_of T calls) \<and>
           successful_calls st = successes (calls_of T calls) \<and>
           int (failed_calls st) =
             int (length (calls_of T calls)) - int (successes (calls_of T calls)) \<and>
           total_execution_time st = float_sum (durations (calls_of T calls)) \<and>
           float_truediv_int (total_execution_time st) (int (total_calls st)) =
             Inr (average_execution_time st) \<and>
           (average_execution_time st \<noteq> NaN \<longrightarrow>
              (\<exists>q. float_truediv_int (total_execution_time st) (int (total_calls st)) = Inr q \<and>
                   float_eq (average_execution_time st) q)))"
proof -
  let ?cs = "calls_of T calls"
  have "length ?cs \<le> length calls"
    by (simp add: calls_of_def)
  then have l: "0 < length ?cs" "length ?cs < count_limit"
    using assms by simp_all
  obtain avg where avg: "float_truediv_int (float_sum (durations ?cs)) (int (length ?cs)) = Inr avg"
    using float_truediv_int_ok [OF l] by blast
  show ?thesis
    using assms avg successes_le [of ?cs]
    by (simp add: record_calls_table stats_after_def float_eq_refl)
qed

lemma sample_float_facts:
  "float_add (Fin 0) (Fin (1 / 2)) = Fin (1 / 2)"
  "float_add (Fin (1 / 2)) (Fin (3 / 2)) = Fin 2"
  "float_add (Fin 2) (Fin 4) = Fin 6"
  "float_add (Fin 0) (Fin 1) = Fin 1"
  "float_add (Fin 6) (Fin 2) = Fin 8"
  "float_truediv_int (Fin (1 / 2)) 1 = Inr (Fin (1 / 2))"
  "float_truediv_int (Fin 2) 2 = Inr (Fin 1)"
  "float_truediv_int (Fin 6) 3 = Inr (Fin 2)"
  "float_truediv_int (Fin 1) 1 = Inr (Fin 1)"
  "float_truediv_int (Fin 8) 4 = Inr (Fin 2)"
  by code_simp+

lemma sample_calls_run:
  "fst (record_calls Map.empty sample_calls) = Inr ()"
  "snd (record_calls Map.empty sample_calls) ''calculator'' =
     Some \<lparr>total_calls = 3, successful_calls = 2, failed_calls = 1,
           total_execution_time = Fin 6, average_execution_time = Fin 2\<rparr>"
  "snd (record_calls Map.empty sample_calls) ''time'' =
     Some \<lparr>total_calls = 1, successful_calls = 0, failed_calls = 1,
           total_execution_time = Fin 1, average_execution_time = Fin 1\<rparr>"
  by (simp_all add: sample_calls_def update_performance_stats_def sample_float_facts)


lemma tenths_float_facts:
  "round_to_double (1 / 10) = Fin (3602879701896397 / 36028797018963968)"
  "round_to_double (1 / 5) = Fin (3602879701896397 / 18014398509481984)"
  "round_to_double (3 / 10) = Fin (5404319552844595 / 18014398509481984)"
  "float_add (Fin 0) (Fin (3602879701896397 / 36028797018963968)) =
     Fin (3602879701896397 / 36028797018963968)"
  "float_add (Fin (3602879701896397 / 36028797018963968))
     (Fin (3602879701896397 / 18014398509481984)) = Fin (1351079888211149 / 4503599627370496)"
  "float_add (Fin (1351079888211149 / 4503599627370496))
     (Fin (5404319552844595 / 18014398509481984)) = Fin (1351079888211149 / 2251799813685248)"
  "float_truediv_int (Fin (3602879701896397 / 36028797018963968)) 1 =
     Inr (Fin (3602879701896397 / 36028797018963968))"
  "float_truediv_int (Fin (1351079888211149 / 4503599627370496)) 2 =
     Inr (Fin (1351079888211149 / 9007199254740992))"
  "float_truediv_int (Fin (1351079888211149 / 2251799813685248)) 3 =
     Inr (Fin (7205759403792795 / 36028797018963968))"
  "round_to_double (21617278211378381 / 108086391056891904) =
     Fin (3602879701896397 / 18014398509481984)"
  by code_simp+

lemma nan_float_facts:
  "float_add (Fin 0) NaN = NaN"
  "float_truediv_int NaN 1 = Inr NaN"
  "\<not> float_eq NaN NaN"
  by code_simp+

lemma tenths_run:
  "snd (record_calls Map.empty tenths_calls) ''calculator'' =
     Some \<lparr>total_calls = 3, successful_calls = 2, failed_calls = 1,
           total_execution_time = Fin (1351079888211149 / 2251799813685248),
           average_execution_time = Fin (7205759403792795 / 36028797018963968)\<rparr>"
  by (simp add: tenths_calls_def update_performance_stats_def tenths_float_facts)

lemma tenths_mean:
  "exact_mean (durations (calls_of ''calculator'' tenths_calls)) =
     21617278211378381 / 108086391056891904"
  by (simp add: tenths_calls_def calls_of_def durations_def exact_mean_def tenths_float_facts)

lemma tenths_rounded_mean:
  "round_to_double (exact_mean (durations (calls_of ''calculator'' tenths_calls))) =
     Fin (3602879701896397 / 18014398509481984)"
  by (simp only: tenths_mean tenths_float_facts(10))

lemma tenths_differ:
  "(7205759403792795 / 36028797018963968 :: rat) \<noteq> 21617278211378381 / 108086391056891904"
  "(7205759403792795 / 36028797018963968 :: rat) \<noteq> 3602879701896397 / 18014398509481984"
  by simp_all

lemma nan_run:
  "snd (record_calls Map.empty nan_calls) ''time'' =
     Some \<lparr>total_calls = 1, successful_calls = 1, failed_calls = 0,
           total_execution_time = NaN, average_execution_time = NaN\<rparr>"
  by (simp add: nan_calls_def update_performance_stats_def nan_float_facts)

text \<open>The amended claim C1 on the sample calls, for the tool \<open>calculator\<close>.\<close>

theorem performance_stats_invariant_witness:
  "calls_of ''calculator'' sample_calls \<noteq> [] \<and>
   length sample_calls < count_limit \<and>
   fst (record_calls Map.empty sample_calls) = Inr () \<and>
   snd (record_calls Map.empty sample_calls) ''calculator'' =
     Some \<lparr>total_calls = 3, successful_calls = 2, failed_calls = 1,
           total_execution_time = Fin 6, average_execution_time = Fin 2\<rparr> \<and>
   length (calls_of ''calculator'' sample_calls) = 3 \<and>
   successes (calls_of ''calculator'' sample_calls) = 2 \<and>
   float_truediv_int (Fin 6) 3 = Inr (Fin 2) \<and>
   float_eq (Fin 2) (Fin 2)"
proof -
  have ne: "calls_of ''calculator'' sample_calls \<noteq> []"
    by (simp add: calls_of_def sample_calls_def)
  have len: "length sample_calls < count_limit"
    by (simp add: sample_calls_def count_limit_def)
  have n: "length (calls_of ''calculator'' sample_calls) = 3"
    "successes (calls_of ''calculator'' sample_calls) = 2"
    by (simp_all add: calls_of_def sample_calls_def successes_def)
  have fe: "float_eq (Fin 2) (Fin 2)"
    by (simp add: float_eq_def is_zero_def)
  show ?thesis
    using performance_stats_invariant [OF ne len] sample_calls_run(1,2) ne len n fe
      sample_float_facts(8)
    by simp
qed

text \<open>
  Claim C1 as stated fails in float arithmetic. After the durations \<^verbatim>\<open>0.1\<close>,
  \<^verbatim>\<open>0.2\<close>, \<^verbatim>\<open>0.3\<close> the stored total is \<^verbatim>\<open>0.6000000000000001\<close> and the stored average
  is \<^verbatim>\<open>0.20000000000000004\<close>, which is neither the exact arithmetic mean of the three
  durations nor that mean rounded to a float (\<^verbatim>\<open>0.2\<close>). After one call with the
  duration NaN the stored average is NaN, which does not compare equal to
  \<^verbatim>\<open>total_execution_time / total_calls\<close>.
\<close>

theorem performance_mean_counterexample:
  "snd (record_calls Map.empty tenths_calls) ''calculator'' =
     Some \<lparr>total_calls = 3, successful_calls = 2, failed_calls = 1,
           total_execution_time = Fin (1351079888211149 / 2251799813685248),
           average_execution_time = Fin (7205759403792795 / 36028797018963968)\<rparr> \<and>
   exact_mean (durations (calls_of ''calculator'' tenths_calls)) =
     21617278211378381 / 108086391056891904 \<and>
   (7205759403792795 / 36028797018963968 :: rat) \<noteq> 21617278211378381 / 108086391056891904 \<and>
   round_to_double (exact_mean (durations (calls_of ''calculator'' tenths_calls))) =
     Fin (3602879701896397 / 18014398509481984) \<and>
   (7205759403792795 / 36028797018963968 :: rat) \<noteq> 3602879701896397 / 18014398509481984 \<and>
   snd (record_calls Map.empty nan_calls) ''time'' =
     Some \<lparr>total_calls = 1, successful_calls = 1, failed_calls = 0,
           total_execution_time = NaN, average_execution_time = NaN\<rparr> \<and>
   float_truediv_int NaN 1 = Inr NaN \<and>
   \<not> float_eq NaN NaN"
  by (intro conjI)
     (rule tenths_run tenths_mean tenths_rounded_mean tenths_differ nan_run nan_float_facts)+

section \<open>The real path: proofs\<close>

lemma tool_mapping_lookup:
  "map_of (tool_mapping ri) tn =
     (if tn = ''database_sqlite'' then Some (call_real_database ri)
      else if tn = ''calculator'' then Some (call_real_calculator ri)
      else if tn = ''brave_search'' then Some (call_real_search ri)
      else if tn = ''filesystem'' then Some (call_real_filesystem ri)
      else if tn = ''time'' then Some (call_real_time ri)
      else None)"
  by (simp add: tool_mapping_def)

text \<open>
  Claim C8, as amended. With a real interface installed, a mapped tool name
  (\<open>database_sqlite\<close>, \<open>calculator\<close>, \<open>brave_search\<close>, \<open>filesystem\<close>, \<open>time\<close>)
  called with an action its adapter does not recognise raises a \<^verbatim>\<open>ValueError\<close> whose
  message is the adapter's "unsupported operation" text followed by the action, and an
  unmapped tool name is passed to the generic \<^verbatim>\<open>call_tool\<close> of the interface. With no
  interface installed every call raises the \<^verbatim>\<open>RuntimeError\<close> of the guard, whatever the
  tool name and the action.
\<close>

theorem real_path_unsupported_action:
  "(act \<noteq> ''query'' \<longrightarrow>
      call_real_mcp_tool (Some ri) ''database_sqlite'' act ps =
        Inl (ValueError (msg_unsupported_database @ act))) \<and>
   (act \<noteq> ''calculate'' \<longrightarrow>
      call_real_mcp_tool (Some ri) ''calculator'' act ps =
        Inl (ValueError (msg_unsupported_calculator @ act))) \<and>
   (act \<noteq> ''search'' \<longrightarrow>
      call_real_mcp_tool (Some ri) ''brave_search'' act ps =
        Inl (ValueError (msg_unsupported_search @ act))) \<and>
   (act \<noteq> ''read_file'' \<and> act \<noteq> ''write_file'' \<longrightarrow>
      call_real_mcp_tool (Some ri) ''filesystem'' act ps =
        Inl (ValueError (msg_unsupported_filesystem @ act))) \<and>
   (act \<noteq> ''get_time'' \<longrightarrow>
      call_real_mcp_tool (Some ri) ''time'' act ps =
        Inl (ValueError (msg_unsupported_time @ act))) \<and>
   (tn \<notin> {''database_sqlite'', ''calculator'', ''brave_search'', ''filesystem'', ''time''} \<longrightarrow>
      call_real_mcp_tool (Some ri) tn act ps = call_tool ri act ps) \<and>
   call_real_mcp_tool None tn act ps = Inl (RuntimeError msg_interface_uninitialized)"
  by (simp add: call_real_mcp_tool_def tool_mapping_lookup call_real_database_def
      call_real_calculator_def call_real_search_def call_real_filesystem_def call_real_time_def)

text \<open>The amended claim C8 on the sample interface, with the action \<open>drop\<close>.\<close>

theorem real_path_unsupported_action_witness:
  "call_real_mcp_tool (Some sample_interface) ''database_sqlite'' ''drop'' [] =
     Inl (ValueError (msg_unsupported_database @ ''drop'')) \<and>
   call_real_mcp_tool (Some sample_interface) ''calculator'' ''drop'' [] =
     Inl (ValueError (msg_unsupported_calculator @ ''drop'')) \<and>
   call_real_mcp_tool (Some sample_interface) ''brave_search'' ''drop'' [] =
     Inl (ValueError (msg_unsupported_search @ ''drop'')) \<and>
   call_real_mcp_tool (Some sample_interface) ''filesystem'' ''drop'' [] =
     Inl (ValueError (msg_unsupported_filesystem @ ''drop'')) \<and>
   call_real_mcp_tool (Some sample_interface) ''time'' ''drop'' [] =
     Inl (ValueError (msg_unsupported_time @ ''drop'')) \<and>
   call_real_mcp_tool (Some sample_interface) ''weather'' ''drop'' [] =
     Inr (PList [PStr ''generic'', PStr ''drop'', PDict []]) \<and>
   call_real_mcp_tool None ''weather'' ''drop'' [] = Inl (RuntimeError msg_interface_uninitialized)"
  using real_path_unsupported_action [of "''drop''" sample_interface "[]" "''weather''"]
  by (simp add: sample_interface_def)

text \<open>
  Claim C8 as stated fails when no interface is installed: the mapped tool
  \<open>calculator\<close> with the unrecognised action \<open>drop\<close> raises the guard's
  \<^verbatim>\<open>RuntimeError\<close>, not a \<^verbatim>\<open>ValueError\<close>, and the unmapped tool \<open>weather\<close> is not
  passed to the generic call.
\<close>

theorem real_path_uninitialized_counterexample:
  "call_real_mcp_tool None ''calculator'' ''drop'' [] =
     Inl (RuntimeError msg_interface_uninitialized) \<and>
   \<not> (\<exists>m. call_real_mcp_tool None ''calculator'' ''drop'' [] = Inl (ValueError m)) \<and>
   call_real_mcp_tool None ''weather'' ''drop'' [] \<noteq>
     call_tool sample_interface ''drop'' []"
  by (simp add: call_real_mcp_tool_def sample_interface_def)

section \<open>The dispatcher: proofs\<close>

lemma mode_mapping_total:
  "(case map_of mode_mapping em of Some tm \<Rightarrow> tm | None \<Rightarrow> ToolMode.PLACEHOLDER) =
     (case em of ToolExecutionMode.REAL \<Rightarrow> ToolMode.REAL_MCP
      | ToolExecutionMode.PLACEHOLDER \<Rightarrow> ToolMode.PLACEHOLDER
      | ToolExecutionMode.HYBRID \<Rightarrow> ToolMode.HYBRID)"
  by (cases em) (simp_all add: mode_mapping_def)

lemma call_tool_smart_relays:
  "(\<exists>r. fst (call_tool_smart ec self tn act ps) = Inr r) \<longleftrightarrow>
   (\<exists>r. fst (ec (enhanced_tools self) tn act ps) = Inr r)"
  by (cases "ec (enhanced_tools self) tn act ps"; cases "fst (ec (enhanced_tools self) tn act ps)")
     (auto simp: call_tool_smart_def)

lemma call_tool_smart_raises:
  "fst (call_tool_smart ec self tn act ps) = Inl e \<longleftrightarrow>
   fst (ec (enhanced_tools self) tn act ps) = Inl e"
  by (cases "ec (enhanced_tools self) tn act ps"; cases "fst (ec (enhanced_tools self) tn act ps)")
     (auto simp: call_tool_smart_def)

lemma call_tool_smart_frame:
  "snd (call_tool_smart ec self tn act ps) =
     self\<lparr>enhanced_tools := snd (ec (enhanced_tools self) tn act ps)\<rparr>"
  by (cases "ec (enhanced_tools self) tn act ps"; cases "fst (ec (enhanced_tools self) tn act ps)")
     (auto simp: call_tool_smart_def)

lemma call_tool_smart_enhanced:
  "fst (call_tool_smart enhanced_call_tool self tn act ps) =
     (let r = dispatch (enhanced_tools self) tn act ps in
      Inr \<lparr>ToolCallResult.success = CallResult.success r, result = data r,
            ToolCallResult.tool_name = CallResult.tool_name r,
            ToolCallResult.mode_used =
              (case CallResult.mode_used r of ToolExecutionMode.REAL \<Rightarrow> ToolMode.REAL_MCP
               | ToolExecutionMode.PLACEHOLDER \<Rightarrow> ToolMode.PLACEHOLDER
               | ToolExecutionMode.HYBRID \<Rightarrow> ToolMode.HYBRID),
            ToolCallResult.error = CallResult.error r,
            ToolCallResult.execution_time = CallResult.execution_time r\<rparr>)"
  by (simp add: call_tool_smart_def enhanced_call_tool_def Let_def mode_mapping_total)

text \<open>
  Claim C2. With the enhanced tools as the spec describes them, \<^verbatim>\<open>call_tool_smart\<close>
  returns a \<^verbatim>\<open>ToolCallResult\<close> for every tool name, action and parameters and never
  raises; when the backend that the mode selects raises (the real one in real mode, the
  placeholder one in placeholder mode, both in hybrid mode), the result has
  \<open>success = False\<close> and the text of the exception as \<open>error\<close>; in particular real
  mode over the real path with no interface installed yields a failed result whose error
  is the text of the guard.
\<close>

theorem dispatch_never_raises:
  "\<exists>r. fst (call_tool_smart enhanced_call_tool self tn act ps) = Inr r \<and>
     ToolCallResult.tool_name r = tn \<and>
     (mode (enhanced_tools self) = ToolExecutionMode.REAL \<longrightarrow>
        (\<forall>e. real_backend (enhanced_tools self) tn act ps = Inl e \<longrightarrow>
           \<not> ToolCallResult.success r \<and> ToolCallResult.error r = Some (str_exc e) \<and>
           ToolCallResult.mode_used r = ToolMode.REAL_MCP)) \<and>
     (mode (enhanced_tools self) = ToolExecutionMode.PLACEHOLDER \<longrightarrow>
        (\<forall>e. placeholder_backend (enhanced_tools self) tn act ps = Inl e \<longrightarrow>
           \<not> ToolCallResult.success r \<and> ToolCallResult.error r = Some (str_exc e))) \<and>
     (mode (enhanced_tools self) = ToolExecutionMode.HYBRID \<longrightarrow>
        (\<forall>e1 e. real_backend (enhanced_tools self) tn act ps = Inl e1 \<and>
           placeholder_backend (enhanced_tools self) tn act ps = Inl e \<longrightarrow>
           \<not> ToolCallResult.success r \<and> ToolCallResult.error r = Some (str_exc e))) \<and>
     (mode (enhanced_tools self) = ToolExecutionMode.REAL \<and>
      real_backend (enhanced_tools self) = call_real_mcp_tool None \<longrightarrow>
        \<not> ToolCallResult.success r \<and>
        ToolCallResult.error r = Some msg_interface_uninitialized)"
  by (cases "mode (enhanced_tools self)")
     (auto simp: call_tool_smart_enhanced Let_def dispatch_def backend_result_def
        call_real_mcp_tool_def split: sum.splits)

text \<open>Claim C2 on the offline manager, in each of the three modes.\<close>

theorem dispatch_never_raises_witness:
  "mode (enhanced_tools (offline_manager ToolMode.REAL_MCP)) = ToolExecutionMode.REAL \<and>
   real_backend (enhanced_tools (offline_manager ToolMode.REAL_MCP)) = call_real_mcp_tool None \<and>
   fst (call_tool_smart enhanced_call_tool (offline_manager ToolMode.REAL_MCP)
          ''calculator'' ''calculate'' [(''expression'', PStr ''2+2'')]) =
     Inr \<lparr>ToolCallResult.success = False, result = PNone,
           ToolCallResult.tool_name = ''calculator'',
           ToolCallResult.mode_used = ToolMode.REAL_MCP,
           ToolCallResult.error = Some msg_interface_uninitialized,
           ToolCallResult.execution_time = Fin 0\<rparr> \<and>
   mode (enhanced_tools (offline_manager ToolMode.PLACEHOLDER)) = ToolExecutionMode.PLACEHOLDER \<and>
   placeholder_backend (enhanced_tools (offline_manager ToolMode.PLACEHOLDER))
     ''calculator'' ''calculate'' [(''expression'', PStr ''2+2'')] =
     Inl (OtherException ''timed out'') \<and>
   fst (call_tool_smart enhanced_call_tool (offline_manager ToolMode.PLACEHOLDER)
          ''calculator'' ''calculate'' [(''expression'', PStr ''2+2'')]) =
     Inr \<lparr>ToolCallResult.success = False, result = PNone,
           ToolCallResult.tool_name = ''calculator'',
           ToolCallResult.mode_used = ToolMode.PLACEHOLDER,
           ToolCallResult.error = Some ''timed out'',
           ToolCallResult.execution_time = Fin 0\<rparr> \<and>
   mode (enhanced_tools (offline_manager ToolMode.HYBRID)) = ToolExecutionMode.HYBRID \<and>
   real_backend (enhanced_tools (offline_manager ToolMode.HYBRID))
     ''calculator'' ''calculate'' [(''expression'', PStr ''2+2'')] =
     Inl (RuntimeError msg_interface_uninitialized) \<and>
   fst (call_tool_smart enhanced_call_tool (offline_manager ToolMode.HYBRID)
          ''calculator'' ''calculate'' [(''expression'', PStr ''2+2'')]) =
     Inr \<lparr>ToolCallResult.success = False, result = PNone,
           ToolCallResult.tool_name = ''calculator'',
           ToolCallResult.mode_used = ToolMode.PLACEHOLDER,
           ToolCallResult.error = Some ''timed out'',
           ToolCallResult.execution_time = Fin 0\<rparr>"
  using dispatch_never_raises [of "offline_manager ToolMode.REAL_MCP" "''calculator''"
      "''calculate''" "[(''expression'', PStr ''2+2'')]"]
    dispatch_never_raises [of "offline_manager ToolMode.PLACEHOLDER" "''calculator''"
      "''calculate''" "[(''expression'', PStr ''2+2'')]"]
    dispatch_never_raises [of "offline_manager ToolMode.HYBRID" "''calculator''"
      "''calculate''" "[(''expression'', PStr ''2+2'')]"]
  by (simp add: offline_manager_def MCPToolsManagerV2_init_def offline_tools_def
      call_tool_smart_def enhanced_call_tool_def dispatch_def backend_result_def
      call_real_mcp_tool_def call_placeholder_tool_def mode_mapping_def Let_def)

text \<open>
  Claim C3, as amended. \<^verbatim>\<open>call_tool_smart\<close> never calls
  \<^verbatim>\<open>_update_performance_stats\<close>: whatever the enhanced tools do, a dispatch leaves
  \<^verbatim>\<open>self.tool_performance_stats\<close> as it was, for every tool. A call of
  \<^verbatim>\<open>_update_performance_stats\<close> for a tool \<open>T\<close> raises the \<open>total_calls\<close> of \<open>T\<close> by
  exactly one and leaves the entries of all other tools unchanged.
\<close>

theorem dispatch_leaves_legacy_stats:
  "tool_performance_stats (snd (call_tool_smart ec self tn act ps)) = tool_performance_stats self \<and>
   (\<exists>st. snd (update_performance_stats tps T ok t) T = Some st \<and>
         total_calls st = (case tps T of None \<Rightarrow> 0 | Some s \<Rightarrow> total_calls s) + 1) \<and>
   (\<forall>T'. T' \<noteq> T \<longrightarrow> snd (update_performance_stats tps T ok t) T' = tps T')"
  using update_stats_entry [of tps T ok t]
  by (simp add: call_tool_smart_frame update_stats_other)

lemma seen_stats:
  "tool_performance_stats seen_manager ''calculator'' =
     Some \<lparr>total_calls = 3, successful_calls = 2, failed_calls = 1,
           total_execution_time = Fin 6, average_execution_time = Fin 2\<rparr>"
  "tool_performance_stats seen_manager ''time'' =
     Some \<lparr>total_calls = 1, successful_calls = 0, failed_calls = 1,
           total_execution_time = Fin 1, average_execution_time = Fin 1\<rparr>"
  by (simp_all add: seen_manager_def sample_calls_run)

text \<open>
  Claim C3 as stated fails: a successful dispatch for \<open>calculator\<close> on a manager whose
  table records three calls of \<open>calculator\<close> leaves \<open>total_calls\<close> at three.
\<close>

theorem dispatch_tracks_once_counterexample:
  "fst (call_tool_smart echo_call_tool seen_manager ''calculator'' ''calculate'' []) =
     Inr \<lparr>ToolCallResult.success = True, result = PDict [],
           ToolCallResult.tool_name = ''calculator'',
           ToolCallResult.mode_used = ToolMode.PLACEHOLDER,
           ToolCallResult.error = None, ToolCallResult.execution_time = Fin 0\<rparr> \<and>
   tool_performance_stats seen_manager ''calculator'' =
     Some \<lparr>total_calls = 3, successful_calls = 2, failed_calls = 1,
           total_execution_time = Fin 6, average_execution_time = Fin 2\<rparr> \<and>
   tool_performance_stats
     (snd (call_tool_smart echo_call_tool seen_manager ''calculator'' ''calculate'' []))
     ''calculator'' =
     Some \<lparr>total_calls = 3, successful_calls = 2, failed_calls = 1,
           total_execution_time = Fin 6, average_execution_time = Fin 2\<rparr>"
  by (simp add: call_tool_smart_def echo_call_tool_def mode_mapping_def seen_stats)

text \<open>The amended claim C3 on the same manager.\<close>

theorem dispatch_leaves_legacy_stats_witness:
  "tool_performance_stats
     (snd (call_tool_smart echo_call_tool seen_manager ''calculator'' ''calculate'' [])) =
     tool_performance_stats seen_manager \<and>
   snd (update_performance_stats (tool_performance_stats seen_manager) ''calculator'' True (Fin 2))
     ''calculator'' =
     Some \<lparr>total_calls = 4, successful_calls = 3, failed_calls = 1,
           total_execution_time = Fin 8, average_execution_time = Fin 2\<rparr> \<and>
   ''time'' \<noteq> ''calculator'' \<and>
   snd (update_performance_stats (tool_performance_stats seen_manager) ''calculator'' True (Fin 2))
     ''time'' =
     tool_performance_stats seen_manager ''time''"
  using dispatch_leaves_legacy_stats [of echo_call_tool seen_manager "''calculator''"
      "''calculate''" "[]" "tool_performance_stats seen_manager" "''calculator''" True "Fin 2"]
  by (simp add: update_performance_stats_def seen_stats sample_float_facts)

text \<open>
  Claim C5. For a workflow name that the registry does not hold,
  \<^verbatim>\<open>execute_workflow_v2\<close> returns (the model has no exception here) a result with
  \<open>success = False\<close>, empty \<open>results\<close> and the summary "workflow configuration does
  not exist", and leaves the manager unchanged.
\<close>

theorem unknown_workflow_reported:
  assumes "workflows self name = None"
  shows "execute_workflow_v2 ec fmt self name ui ctx =
           (\<lparr>success = False, workflow_name = name, results = [],
             execution_summary = msg_workflow_missing, metadata = None\<rparr>, self)"
  using assms by (simp add: execute_workflow_v2_def)

text \<open>Claim C5 on the sample manager and the name \<open>nonexistent\<close>.\<close>

theorem unknown_workflow_reported_witness:
  "workflows sample_manager ''nonexistent'' = None \<and>
   WorkflowResult.success
     (fst (execute_workflow_v2 echo_call_tool sample_format_2f sample_manager ''nonexistent'' ''2+2'' [])) = False \<and>
   results (fst (execute_workflow_v2 echo_call_tool sample_format_2f sample_manager ''nonexistent'' ''2+2'' [])) = [] \<and>
   execution_summary (fst (execute_workflow_v2 echo_call_tool sample_format_2f sample_manager ''nonexistent'' ''2+2'' [])) = msg_workflow_missing"
proof -
  have h: "workflows sample_manager ''nonexistent'' = None"
    by (simp add: sample_manager_def MCPToolsManagerV2_init_def sample_super_def
        sample_workflows_def)
  show ?thesis
    using h unknown_workflow_reported [OF h, of echo_call_tool sample_format_2f "''2+2''" "[]"]
    by simp
qed

section \<open>The workflow loop: proofs\<close>

lemma execute_step_outcome:
  "fst (execute_step ec fmt ui self res summ step) =
     (case call_tool_smart ec self (step_tool step) (step_action step)
             (parameterize ui (step_params step)) of
        (out, self') \<Rightarrow>
          (self', store_result res (step, out), summ @ [summary_line fmt step out]))"
  by (auto simp: execute_step_def Let_def step_params_def store_result_def summary_line_def
      step_key_def split: prod.splits sum.splits)

lemma step_outcomes_unfold:
  "step_outcomes ec ui self (step # steps) =
     (case call_tool_smart ec self (step_tool step) (step_action step)
             (parameterize ui (step_params step)) of
        (out, self') \<Rightarrow> out # step_outcomes ec ui self' steps)"
  by (simp add: step_params_def)

lemma length_step_outcomes: "length (step_outcomes ec ui self steps) = length steps"
  by (induction steps arbitrary: self) (auto split: prod.splits)

lemma execute_steps_results:
  "fst (snd (execute_steps ec fmt ui self res summ steps)) =
     foldl store_result res (zip steps (step_outcomes ec ui self steps))"
proof (induction steps arbitrary: self res summ)
  case Nil
  show ?case by simp
next
  case (Cons step steps)
  obtain out self' where c: "call_tool_smart ec self (step_tool step) (step_action step)
             (parameterize ui (step_params step)) = (out, self')" by (cases "call_tool_smart ec self (step_tool step) (step_action step)
             (parameterize ui (step_params step))")
  obtain st' where e: "execute_step ec fmt ui self res summ step = ((self', store_result res (step, out), summ @ [summary_line fmt step out]), st')"
    using execute_step_outcome [of ec fmt ui self res summ step] c
    by (cases "execute_step ec fmt ui self res summ step") auto
  show ?case
    using Cons.IH [of self' "store_result res (step, out)" "summ @ [summary_line fmt step out]"] c e
    by (auto simp add: step_outcomes_unfold simp del: step_outcomes.simps split: prod.splits)
qed

lemma execute_steps_summary:
  "fst (snd (snd (execute_steps ec fmt ui self res summ steps))) =
     summ @ map (\<lambda>p. summary_line fmt (fst p) (snd p)) (zip steps (step_outcomes ec ui self steps))"
proof (induction steps arbitrary: self res summ)
  case Nil
  show ?case by simp
next
  case (Cons step steps)
  obtain out self' where c: "call_tool_smart ec self (step_tool step) (step_action step)
             (parameterize ui (step_params step)) = (out, self')" by (cases "call_tool_smart ec self (step_tool step) (step_action step)
             (parameterize ui (step_params step))")
  obtain st' where e: "execute_step ec fmt ui self res summ step = ((self', store_result res (step, out), summ @ [summary_line fmt step out]), st')"
    using execute_step_outcome [of ec fmt ui self res summ step] c
    by (cases "execute_step ec fmt ui self res summ step") auto
  show ?case
    using Cons.IH [of self' "store_result res (step, out)" "summ @ [summary_line fmt step out]"] c e
    by (auto simp add: step_outcomes_unfold simp del: step_outcomes.simps split: prod.splits)
qed

lemma call_tool_smart_tool_mode:
  "tool_mode (snd (call_tool_smart ec self tn act ps)) = tool_mode self"
  by (auto simp: call_tool_smart_def split: prod.splits sum.splits)

lemma execute_steps_tool_mode:
  "tool_mode (fst (execute_steps ec fmt ui self res summ steps)) = tool_mode self"
proof (induction steps arbitrary: self res summ)
  case Nil
  show ?case by simp
next
  case (Cons step steps)
  obtain out self' where c: "call_tool_smart ec self (step_tool step) (step_action step)
             (parameterize ui (step_params step)) = (out, self')" by (cases "call_tool_smart ec self (step_tool step) (step_action step)
             (parameterize ui (step_params step))")
  obtain st' where e: "execute_step ec fmt ui self res summ step = ((self', store_result res (step, out), summ @ [summary_line fmt step out]), st')"
    using execute_step_outcome [of ec fmt ui self res summ step] c
    by (cases "execute_step ec fmt ui self res summ step") auto
  have "tool_mode self' = tool_mode self"
    using call_tool_smart_tool_mode [of ec self "step_tool step" "step_action step" "parameterize ui (step_params step)"] c by simp
  then show ?case
    using Cons.IH [of self' "store_result res (step, out)" "summ @ [summary_line fmt step out]"] e
    by (auto split: prod.splits)
qed

lemma execute_workflow_v2_registered:
  assumes "workflows self name = Some cfg"
  shows "fst (execute_workflow_v2 ec fmt self name ui ctx) =
     \<lparr>success = True, workflow_name = name,
      results = foldl store_result [] (zip (tools cfg) (step_outcomes ec ui self (tools cfg))),
      execution_summary = join_lines (map (\<lambda>p. summary_line fmt (fst p) (snd p))
          (zip (tools cfg) (step_outcomes ec ui self (tools cfg)))),
      metadata = Some
         [(''tool_mode'', PStr (ToolMode_value (tool_mode self))),
          (''total_steps'', PInt (int (length (tools cfg)))),
          (''completed_steps'', PInt (int (length
              (foldl store_result [] (zip (tools cfg) (step_outcomes ec ui self (tools cfg)))))))]\<rparr>"
  using assms execute_steps_results [of ec fmt ui self "[]" "[]" "tools cfg"]
    execute_steps_summary [of ec fmt ui self "[]" "[]" "tools cfg"]
    execute_steps_tool_mode [of ec fmt ui self "[]" "[]" "tools cfg"]
  by (auto simp: execute_workflow_v2_def split: prod.splits)

lemma length_alist_update: "length (AList.update k v al) \<le> Suc (length al)"
  by (induction al) simp_all

lemma length_store_result: "length (store_result res p) \<le> Suc (length res)"
  by (simp add: store_result_def length_alist_update split: sum.splits)

lemma length_foldl_store: "length (foldl store_result res ps) \<le> length res + length ps"
proof (induction ps arbitrary: res)
  case Nil show ?case by simp
next
  case (Cons p ps)
  show ?case using Cons.IH [of "store_result res p"] length_store_result [of res p] by simp
qed

lemma distinct_foldl_store:
  "distinct (map fst res) \<Longrightarrow> distinct (map fst (foldl store_result res ps))"
  by (induction ps arbitrary: res) (simp_all add: store_result_def distinct_update split: sum.splits)

lemma keys_foldl_store:
  "fst ` set (foldl store_result res ps) =
     fst ` set res \<union> {step_key s | s r. (s, Inr r) \<in> set ps}"
proof (induction ps arbitrary: res)
  case Nil show ?case by simp
next
  case (Cons p ps)
  obtain s out where p: "p = (s, out)" by (cases p)
  show ?case
    using Cons.IH [of "store_result res p"] p
    by (cases out) (auto simp: store_result_def dom_update)
qed

lemma parameterize_hit:
  "map_of ps ''user_input'' = Some (PStr ''{{user_input}}'') \<Longrightarrow>
   map_of (parameterize ui ps) ''user_input'' = Some (PStr ui)"
  by (simp add: parameterize_def update_conv')

lemma parameterize_other:
  "k \<noteq> ''user_input'' \<Longrightarrow> map_of (parameterize ui ps) k = map_of ps k"
  by (simp add: parameterize_def update_conv')

lemma parameterize_miss:
  "map_of qs ''user_input'' \<noteq> Some (PStr ''{{user_input}}'') \<Longrightarrow> parameterize ui qs = qs"
  by (simp add: parameterize_def)

lemma echo_outcomes:
  "step_outcomes echo_call_tool ui self steps = map (echoed ui) steps"
  by (induction steps arbitrary: self)
     (simp_all add: call_tool_smart_def echo_call_tool_def mode_mapping_def echoed_def
        step_params_def)

lemma foldl_store_echoed:
  "foldl store_result res (zip steps (map (echoed ui) steps)) =
   foldl (\<lambda>res s. AList.update (step_tool s @ ''_'' @ step_action s)
                    (PDict (parameterize ui (step_params s))) res) res steps"
  by (induction steps arbitrary: res) (simp_all add: store_result_def echoed_def step_key_def)

text \<open>
  Claim C4, as amended. The template is filled in only under the key \<open>user_input\<close>:
  a parameters dictionary that maps \<open>user_input\<close> to the token \<open>{{user_input}}\<close> is
  dispatched with \<open>user_input\<close> mapped to the caller's string and every other key
  unchanged; a dictionary without that entry (also one that holds the token under another
  key) is dispatched unchanged. Observed with the stand-in that answers with the
  parameters it received: the results of a registered workflow hold, under each step's
  key, the parameters after that substitution, and the summary has one line per step.
\<close>

theorem template_substitution:
  "(map_of ps ''user_input'' = Some (PStr ''{{user_input}}'') \<longrightarrow>
      map_of (parameterize ui ps) ''user_input'' = Some (PStr ui)) \<and>
   (\<forall>k. k \<noteq> ''user_input'' \<longrightarrow> map_of (parameterize ui ps) k = map_of ps k) \<and>
   (map_of qs ''user_input'' \<noteq> Some (PStr ''{{user_input}}'') \<longrightarrow> parameterize ui qs = qs) \<and>
   (workflows self name = Some cfg \<longrightarrow>
      results (fst (execute_workflow_v2 echo_call_tool fmt self name ui ctx)) =
        foldl (\<lambda>res s. AList.update (step_tool s @ ''_'' @ step_action s)
                         (PDict (parameterize ui (step_params s))) res) [] (tools cfg) \<and>
      (\<exists>lines. execution_summary (fst (execute_workflow_v2 echo_call_tool fmt self name ui ctx)) =
                 join_lines lines \<and> length lines = length (tools cfg)))"
proof -
  have "workflows self name = Some cfg \<Longrightarrow>
      results (fst (execute_workflow_v2 echo_call_tool fmt self name ui ctx)) =
        foldl (\<lambda>res s. AList.update (step_tool s @ ''_'' @ step_action s)
                         (PDict (parameterize ui (step_params s))) res) [] (tools cfg)"
    by (simp add: execute_workflow_v2_registered echo_outcomes foldl_store_echoed)
  moreover have "workflows self name = Some cfg \<Longrightarrow>
      (\<exists>lines. execution_summary (fst (execute_workflow_v2 echo_call_tool fmt self name ui ctx)) =
                 join_lines lines \<and> length lines = length (tools cfg))"
    by (rule exI [of _ "map (\<lambda>p. summary_line fmt (fst p) (snd p))
          (zip (tools cfg) (step_outcomes echo_call_tool ui self (tools cfg)))"])
       (simp add: execute_workflow_v2_registered length_step_outcomes)
  ultimately show ?thesis
    using parameterize_hit [of ps ui] parameterize_other [of _ ui ps] parameterize_miss [of qs ui]
    by blast
qed

lemma wf_daily: "workflows sample_manager ''daily_checkin'' = Some
        \<lparr>tools =
           [\<lparr>step_tool = ''clock'', step_action = ''get_time'', step_parameters = Some []\<rparr>,
            \<lparr>step_tool = ''calculator'', step_action = ''calculate'',
              step_parameters = Some [(''expression'', PStr ''{{user_input}}'')]\<rparr>]\<rparr>"
  by (simp add: sample_manager_def MCPToolsManagerV2_init_def sample_super_def sample_workflows_def)


text \<open>The amended claim C4 on the workflow \<open>greeting\<close> with the input \<open>hello\<close>.\<close>

theorem template_substitution_witness:
  "map_of (parameterize ''hello'' [(''user_input'', PStr ''{{user_input}}''), (''lang'', PStr ''en'')])
     ''user_input'' = Some (PStr ''hello'') \<and>
   map_of (parameterize ''hello'' [(''user_input'', PStr ''{{user_input}}''), (''lang'', PStr ''en'')])
     ''lang'' = Some (PStr ''en'') \<and>
   parameterize ''hello'' [(''expression'', PStr ''{{user_input}}'')] =
     [(''expression'', PStr ''{{user_input}}'')] \<and>
   results (fst (execute_workflow_v2 echo_call_tool sample_format_2f sample_manager
                   ''greeting'' ''hello'' [])) =
     [(''echo_say'', PDict [(''user_input'', PStr ''hello''), (''lang'', PStr ''en'')])] \<and>
   execution_summary (fst (execute_workflow_v2 echo_call_tool sample_format_2f sample_manager
                   ''greeting'' ''hello'' [])) =
     join_lines [mark_done @ ''echo.say (placeholder) - 0.00s'']"
proof -
  have wf: "workflows sample_manager ''greeting'' =
      Some \<lparr>tools =
           [\<lparr>step_tool = ''echo'', step_action = ''say'',
              step_parameters =
                Some [(''user_input'', PStr ''{{user_input}}''), (''lang'', PStr ''en'')]\<rparr>]\<rparr>"
    by (simp add: sample_manager_def MCPToolsManagerV2_init_def sample_super_def
        sample_workflows_def)
  have run: "execution_summary (fst (execute_workflow_v2 echo_call_tool sample_format_2f
                   sample_manager ''greeting'' ''hello'' [])) =
     join_lines [mark_done @ ''echo.say (placeholder) - 0.00s'']"
    by (simp add: execute_workflow_v2_def wf execute_step_def call_tool_smart_def
        echo_call_tool_def mode_mapping_def parameterize_def sample_format_2f_def Let_def)
  show ?thesis
    using template_substitution [of
        "[(''user_input'', PStr ''{{user_input}}''), (''lang'', PStr ''en'')]" "''hello''"
        "[(''expression'', PStr ''{{user_input}}'')]" sample_manager "''greeting''" _
        sample_format_2f "[]"] wf run
    by (simp add: step_params_def parameterize_def)
qed

text \<open>
  Claim C4 as stated fails on its own scenario: in \<open>daily_checkin\<close> with the input
  \<open>2+2\<close> the calculator step is dispatched with \<open>expression\<close> still equal to the
  token, not to \<open>2+2\<close>.
\<close>

theorem template_any_key_counterexample:
  "map_of (results (fst (execute_workflow_v2 echo_call_tool sample_format_2f sample_manager
                           ''daily_checkin'' ''2+2'' []))) ''calculator_calculate'' =
     Some (PDict [(''expression'', PStr ''{{user_input}}'')]) \<and>
   map_of (results (fst (execute_workflow_v2 echo_call_tool sample_format_2f sample_manager
                           ''daily_checkin'' ''2+2'' []))) ''calculator_calculate'' \<noteq>
     Some (PDict [(''expression'', PStr ''2+2'')]) \<and>
   parameterize ''2+2'' [(''expression'', PStr ''{{user_input}}'')] =
     [(''expression'', PStr ''{{user_input}}'')]"
  by (simp add: execute_workflow_v2_def wf_daily execute_step_def call_tool_smart_def
      echo_call_tool_def mode_mapping_def parameterize_def Let_def)

text \<open>
  Claim C6. For a registered workflow, \<^verbatim>\<open>execute_workflow_v2\<close> returns
  \<open>success = True\<close> whatever the steps did; every configured step is dispatched (there
  is one outcome per step), and the summary has one line per step, in order: the failure
  line with the exception's text for a step whose dispatch raised, the check-marked line
  otherwise.
\<close>

theorem workflow_runs_to_completion:
  assumes "workflows self name = Some cfg"
  shows "WorkflowResult.success (fst (execute_workflow_v2 ec fmt self name ui ctx)) \<and>
         length (step_outcomes ec ui self (tools cfg)) = length (tools cfg) \<and>
         (\<exists>lines.
            execution_summary (fst (execute_workflow_v2 ec fmt self name ui ctx)) =
              join_lines lines \<and>
            length lines = length (tools cfg) \<and>
            (\<forall>i < length (tools cfg).
               (case step_outcomes ec ui self (tools cfg) ! i of
                  Inl e \<Rightarrow>
                    lines ! i = mark_failed @ step_tool (tools cfg ! i) @ ''.'' @
                                step_action (tools cfg ! i) @ msg_step_failed @ str_exc e
                | Inr r \<Rightarrow>
                    lines ! i = mark_done @ step_tool (tools cfg ! i) @ ''.'' @
                                step_action (tools cfg ! i) @ '' ('' @
                                ToolMode_value (ToolCallResult.mode_used r) @ '') - '' @
                                fmt (ToolCallResult.execution_time r) @ ''s'')))"
proof -
  let ?outs = "step_outcomes ec ui self (tools cfg)"
  let ?lines = "map (\<lambda>p. summary_line fmt (fst p) (snd p)) (zip (tools cfg) ?outs)"
  have len: "length ?outs = length (tools cfg)"
    by (rule length_step_outcomes)
  have "\<forall>i < length (tools cfg).
          (case ?outs ! i of
             Inl e \<Rightarrow>
               ?lines ! i = mark_failed @ step_tool (tools cfg ! i) @ ''.'' @
                            step_action (tools cfg ! i) @ msg_step_failed @ str_exc e
           | Inr r \<Rightarrow>
               ?lines ! i = mark_done @ step_tool (tools cfg ! i) @ ''.'' @
                            step_action (tools cfg ! i) @ '' ('' @
                            ToolMode_value (ToolCallResult.mode_used r) @ '') - '' @
                            fmt (ToolCallResult.execution_time r) @ ''s'')"
    using len by (auto simp: summary_line_def split: sum.splits)
  then have "\<exists>lines.
      execution_summary (fst (execute_workflow_v2 ec fmt self name ui ctx)) = join_lines lines \<and>
      length lines = length (tools cfg) \<and>
      (\<forall>i < length (tools cfg).
         (case ?outs ! i of
            Inl e \<Rightarrow>
              lines ! i = mark_failed @ step_tool (tools cfg ! i) @ ''.'' @
                          step_action (tools cfg ! i) @ msg_step_failed @ str_exc e
          | Inr r \<Rightarrow>
              lines ! i = mark_done @ step_tool (tools cfg ! i) @ ''.'' @
                          step_action (tools cfg ! i) @ '' ('' @
                          ToolMode_value (ToolCallResult.mode_used r) @ '') - '' @
                          fmt (ToolCallResult.execution_time r) @ ''s''))"
    using assms len
    by (intro exI [of _ ?lines]) (simp add: execute_workflow_v2_registered)
  then show ?thesis
    using assms len by (simp add: execute_workflow_v2_registered)
qed

lemma wf_resilient:
  "workflows sample_manager ''resilient'' =
     Some \<lparr>tools =
           [\<lparr>step_tool = ''broken'', step_action = ''ping'', step_parameters = None\<rparr>,
            \<lparr>step_tool = ''failing'', step_action = ''ping'', step_parameters = None\<rparr>,
            \<lparr>step_tool = ''calculator'', step_action = ''calculate'',
              step_parameters = Some [(''expression'', PStr ''1+1'')]\<rparr>]\<rparr>"
  by (simp add: sample_manager_def MCPToolsManagerV2_init_def sample_super_def
      sample_workflows_def)

lemma resilient_run:
  "execute_workflow_v2 flaky_call_tool sample_format_2f sample_manager ''resilient'' ''2+2'' [] =
     (\<lparr>success = True, workflow_name = ''resilient'',
       results = [(''failing_ping'', PStr ''partial''),
                  (''calculator_calculate'', PDict [(''expression'', PStr ''1+1'')])],
       execution_summary =
         join_lines [mark_failed @ ''broken.ping'' @ msg_step_failed @ ''connection lost'',
                     mark_done @ ''failing.ping (real_mcp) - 0.00s'',
                     mark_done @ ''calculator.calculate (placeholder) - 0.00s''],
       metadata = Some [(''tool_mode'', PStr ''hybrid''), (''total_steps'', PInt 3),
                        (''completed_steps'', PInt 2)]\<rparr>,
      sample_manager\<lparr>enhanced_tools := 3\<rparr>)"
  by (simp add: execute_workflow_v2_def wf_resilient execute_step_def call_tool_smart_def
      flaky_call_tool_def echo_call_tool_def mode_mapping_def parameterize_def
      sample_format_2f_def Let_def)
     (simp add: sample_manager_def MCPToolsManagerV2_init_def sample_super_def
      sample_workflows_def fun_upd_twist)

text \<open>
  Claim C6 on the workflow \<open>resilient\<close>: the first step raises, the second reports a
  failure, and all three steps are dispatched.
\<close>

theorem workflow_runs_to_completion_witness:
  "workflows sample_manager ''resilient'' \<noteq> None \<and>
   step_outcomes flaky_call_tool ''2+2'' sample_manager
     [\<lparr>step_tool = ''broken'', step_action = ''ping'', step_parameters = None\<rparr>,
      \<lparr>step_tool = ''failing'', step_action = ''ping'', step_parameters = None\<rparr>] =
     [Inl (OtherException ''connection lost''),
      Inr \<lparr>ToolCallResult.success = False, result = PStr ''partial'',
            ToolCallResult.tool_name = ''failing'',
            ToolCallResult.mode_used = ToolMode.REAL_MCP,
            ToolCallResult.error = Some ''unavailable'',
            ToolCallResult.execution_time = Fin 0\<rparr>] \<and>
   WorkflowResult.success
     (fst (execute_workflow_v2 flaky_call_tool sample_format_2f sample_manager
             ''resilient'' ''2+2'' [])) \<and>
   execution_summary
     (fst (execute_workflow_v2 flaky_call_tool sample_format_2f sample_manager
             ''resilient'' ''2+2'' [])) =
     join_lines [mark_failed @ ''broken.ping'' @ msg_step_failed @ ''connection lost'',
                 mark_done @ ''failing.ping (real_mcp) - 0.00s'',
                 mark_done @ ''calculator.calculate (placeholder) - 0.00s''] \<and>
   enhanced_tools
     (snd (execute_workflow_v2 flaky_call_tool sample_format_2f sample_manager
             ''resilient'' ''2+2'' [])) = 3"
proof -
  have outs: "step_outcomes flaky_call_tool ''2+2'' sample_manager
     [\<lparr>step_tool = ''broken'', step_action = ''ping'', step_parameters = None\<rparr>,
      \<lparr>step_tool = ''failing'', step_action = ''ping'', step_parameters = None\<rparr>] =
     [Inl (OtherException ''connection lost''),
      Inr \<lparr>ToolCallResult.success = False, result = PStr ''partial'',
            ToolCallResult.tool_name = ''failing'',
            ToolCallResult.mode_used = ToolMode.REAL_MCP,
            ToolCallResult.error = Some ''unavailable'',
            ToolCallResult.execution_time = Fin 0\<rparr>]"
    by (simp add: call_tool_smart_def flaky_call_tool_def mode_mapping_def parameterize_def)
  show ?thesis
    using workflow_runs_to_completion [OF wf_resilient, of flaky_call_tool sample_format_2f
        "''2+2''" "[]"] outs
    by (simp add: resilient_run wf_resilient)
qed

text \<open>
  Claim C7. For a registered workflow, \<open>metadata["total_steps"]\<close> is the number of
  configured steps, \<open>metadata["completed_steps"]\<close> is \<open>len(results)\<close>, and \<open>results\<close>
  (a dictionary: its keys are distinct) has at most that many entries.
\<close>

theorem workflow_step_counts:
  assumes "workflows self name = Some cfg"
  shows "metadata (fst (execute_workflow_v2 ec fmt self name ui ctx)) =
           Some [(''tool_mode'', PStr (ToolMode_value (tool_mode self))),
                 (''total_steps'', PInt (int (length (tools cfg)))),
                 (''completed_steps'',
                    PInt (int (length (results (fst (execute_workflow_v2 ec fmt self name ui ctx))))))] \<and>
         length (results (fst (execute_workflow_v2 ec fmt self name ui ctx))) \<le> length (tools cfg) \<and>
         distinct (map fst (results (fst (execute_workflow_v2 ec fmt self name ui ctx))))"
proof -
  let ?ps = "zip (tools cfg) (step_outcomes ec ui self (tools cfg))"
  have "length (foldl store_result [] ?ps) \<le> length ?ps"
    using length_foldl_store [of "[]" ?ps] by simp
  then have "length (foldl store_result [] ?ps) \<le> length (tools cfg)"
    by (simp add: length_step_outcomes)
  moreover have "distinct (map fst (foldl store_result [] ?ps))"
    by (rule distinct_foldl_store) simp
  ultimately show ?thesis
    using assms by (simp add: execute_workflow_v2_registered)
qed

text \<open>Claim C7 on the workflow \<open>resilient\<close>: three steps, two results.\<close>

theorem workflow_step_counts_witness:
  "workflows sample_manager ''resilient'' \<noteq> None \<and>
   metadata (fst (execute_workflow_v2 flaky_call_tool sample_format_2f sample_manager
                    ''resilient'' ''2+2'' [])) =
     Some [(''tool_mode'', PStr ''hybrid''), (''total_steps'', PInt 3),
           (''completed_steps'', PInt 2)] \<and>
   length (results (fst (execute_workflow_v2 flaky_call_tool sample_format_2f sample_manager
                           ''resilient'' ''2+2'' []))) = 2"
  using workflow_step_counts [OF wf_resilient, of flaky_call_tool sample_format_2f "''2+2''" "[]"]
  by (simp add: resilient_run wf_resilient)

lemma length_alist_update_new:
  "k \<notin> fst ` set al \<Longrightarrow> length (AList.update k v al) = Suc (length al)"
  by (induction al) auto

lemma length_foldl_store_distinct:
  "distinct (map (\<lambda>p. step_key (fst p)) ps) \<Longrightarrow>
   (\<forall>p \<in> set ps. step_key (fst p) \<notin> fst ` set res) \<Longrightarrow>
   length (foldl store_result res ps) = length res + length (filter (\<lambda>p. \<not> isl (snd p)) ps)"
proof (induction ps arbitrary: res)
  case Nil
  show ?case by simp
next
  case (Cons p ps)
  obtain s out where p: "p = (s, out)" by (cases p)
  show ?case
  proof (cases out)
    case (Inl e)
    then show ?thesis
      using Cons p by (simp add: store_result_def)
  next
    case (Inr r)
    have new: "step_key s \<notin> fst ` set res"
      using Cons.prems(2) p by simp
    have rest: "\<forall>p' \<in> set ps. step_key (fst p') \<notin> fst ` set (AList.update (step_key s) (result r) res)"
    proof
      fix p'
      assume i: "p' \<in> set ps"
      have "step_key s \<notin> (\<lambda>p. step_key (fst p)) ` set ps"
        using Cons.prems(1) p by simp
      then have "step_key (fst p') \<noteq> step_key s"
        using i by (metis imageI)
      moreover have "step_key (fst p') \<notin> fst ` set res"
        using Cons.prems(2) i by simp
      ultimately show "step_key (fst p') \<notin> fst ` set (AList.update (step_key s) (result r) res)"
        by (simp add: dom_update)
    qed
    have "distinct (map (\<lambda>p. step_key (fst p)) ps)"
      using Cons.prems(1) by simp
    from Cons.IH [OF this rest] show ?thesis
      using p Inr new by (simp add: store_result_def length_alist_update_new)
  qed
qed

lemma zip_outcomes_counts:
  assumes "length outs = length steps"
  shows "map (\<lambda>p. step_key (fst p)) (zip steps outs) = map step_key steps"
    and "length (filter (\<lambda>p. \<not> isl (snd p)) (zip steps outs)) =
         length (filter (\<lambda>out. \<not> isl out) outs)"
proof -
  have "map (\<lambda>p. step_key (fst p)) (zip steps outs) = map step_key (map fst (zip steps outs))"
    by simp
  then show "map (\<lambda>p. step_key (fst p)) (zip steps outs) = map step_key steps"
    using assms by (simp only: map_fst_zip)
  have "filter (\<lambda>out. \<not> isl out) (map snd (zip steps outs)) =
        map snd (filter (\<lambda>p. \<not> isl (snd p)) (zip steps outs))"
    by (simp add: filter_map comp_def)
  then have "length (filter (\<lambda>out. \<not> isl out) (map snd (zip steps outs))) =
        length (filter (\<lambda>p. \<not> isl (snd p)) (zip steps outs))"
    by simp
  then show "length (filter (\<lambda>p. \<not> isl (snd p)) (zip steps outs)) =
         length (filter (\<lambda>out. \<not> isl out) outs)"
    using assms by (simp only: map_snd_zip)
qed

text \<open>
  Claim C9, as amended. A step whose dispatch returns a result with \<open>success = False\<close>
  without raising still stores \<open>result.result\<close> under the key \<open>tool_action\<close> and
  appends a check-marked line; a step whose dispatch raises leaves \<open>results\<close> as it was
  and appends a cross-marked line. The keys of \<open>results\<close> are exactly the keys of the
  steps whose dispatch did not raise, and \<open>completed_steps\<close> is the number of distinct
  such keys (a later non-raising step with the same tool and action overwrites the
  earlier entry). When the keys of the configured steps are pairwise distinct,
  \<open>completed_steps\<close> is the number of steps whose dispatch did not raise.
\<close>

theorem failed_steps_are_stored:
  "(call_tool_smart ec self (step_tool s) (step_action s) (parameterize ui (step_params s)) =
      (Inr r, self') \<and> \<not> ToolCallResult.success r \<longrightarrow>
      (\<exists>res' line.
         fst (execute_step ec fmt ui self res summ s) = (self', res', summ @ [mark_done @ line]) \<and>
         map_of res' (step_tool s @ ''_'' @ step_action s) = Some (result r))) \<and>
   (call_tool_smart ec self2 (step_tool s2) (step_action s2) (parameterize ui (step_params s2)) =
      (Inl e, self2') \<longrightarrow>
      (\<exists>line.
         fst (execute_step ec fmt ui self2 res summ s2) =
           (self2', res, summ @ [mark_failed @ line]))) \<and>
   (workflows m name = Some cfg \<longrightarrow>
      fst ` set (results (fst (execute_workflow_v2 ec fmt m name ui ctx))) =
        {step_tool st @ ''_'' @ step_action st | st r'.
           (st, Inr r') \<in> set (zip (tools cfg) (step_outcomes ec ui m (tools cfg)))} \<and>
      metadata (fst (execute_workflow_v2 ec fmt m name ui ctx)) =
        Some [(''tool_mode'', PStr (ToolMode_value (tool_mode m))),
              (''total_steps'', PInt (int (length (tools cfg)))),
              (''completed_steps'',
                 PInt (int (card {step_tool st @ ''_'' @ step_action st | st r'.
                   (st, Inr r') \<in> set (zip (tools cfg) (step_outcomes ec ui m (tools cfg)))})))]) \<and>
   (workflows m name = Some cfg \<and>
    distinct (map (\<lambda>st. step_tool st @ ''_'' @ step_action st) (tools cfg)) \<longrightarrow>
      metadata (fst (execute_workflow_v2 ec fmt m name ui ctx)) =
        Some [(''tool_mode'', PStr (ToolMode_value (tool_mode m))),
              (''total_steps'', PInt (int (length (tools cfg)))),
              (''completed_steps'',
                 PInt (int (length (filter (\<lambda>out. \<not> isl out)
                                      (step_outcomes ec ui m (tools cfg))))))])"
proof -
  have a: "call_tool_smart ec self (step_tool s) (step_action s) (parameterize ui (step_params s)) =
      (Inr r, self') \<Longrightarrow>
      (\<exists>res' line.
         fst (execute_step ec fmt ui self res summ s) = (self', res', summ @ [mark_done @ line]) \<and>
         map_of res' (step_tool s @ ''_'' @ step_action s) = Some (result r))"
    by (simp add: execute_step_outcome store_result_def summary_line_def step_key_def
        update_conv')
  have b: "call_tool_smart ec self2 (step_tool s2) (step_action s2)
        (parameterize ui (step_params s2)) = (Inl e, self2') \<Longrightarrow>
      (\<exists>line.
         fst (execute_step ec fmt ui self2 res summ s2) =
           (self2', res, summ @ [mark_failed @ line]))"
    by (simp add: execute_step_outcome store_result_def summary_line_def)
  let ?outs = "step_outcomes ec ui m (tools cfg)"
  let ?ps = "zip (tools cfg) ?outs"
  let ?K = "{step_tool st @ ''_'' @ step_action st | st r'. (st, Inr r') \<in> set ?ps}"
  have keys: "fst ` set (foldl store_result [] ?ps) = ?K"
    using keys_foldl_store [of "[]" ?ps] by (simp add: step_key_def)
  have "distinct (map fst (foldl store_result [] ?ps))"
    by (rule distinct_foldl_store) simp
  then have "card (set (map fst (foldl store_result [] ?ps))) = length (foldl store_result [] ?ps)"
    using distinct_card [of "map fst (foldl store_result [] ?ps)"] by simp
  then have card: "length (foldl store_result [] ?ps) = card ?K"
    using keys by simp
  have c: "workflows m name = Some cfg \<Longrightarrow>
      fst ` set (results (fst (execute_workflow_v2 ec fmt m name ui ctx))) = ?K \<and>
      metadata (fst (execute_workflow_v2 ec fmt m name ui ctx)) =
        Some [(''tool_mode'', PStr (ToolMode_value (tool_mode m))),
              (''total_steps'', PInt (int (length (tools cfg)))),
              (''completed_steps'', PInt (int (card ?K)))]"
    using keys card by (simp add: execute_workflow_v2_registered)
  have len: "length ?outs = length (tools cfg)"
    by (rule length_step_outcomes)
  have d: "distinct (map (\<lambda>st. step_tool st @ ''_'' @ step_action st) (tools cfg)) \<Longrightarrow>
      length (foldl store_result [] ?ps) = length (filter (\<lambda>out. \<not> isl out) ?outs)"
  proof -
    assume "distinct (map (\<lambda>st. step_tool st @ ''_'' @ step_action st) (tools cfg))"
    then have "distinct (map step_key (tools cfg))"
      by (simp add: step_key_def [abs_def])
    then have "distinct (map (\<lambda>p. step_key (fst p)) ?ps)"
      by (simp only: zip_outcomes_counts(1) [OF len])
    then have "length (foldl store_result [] ?ps) =
        length ([]::params) + length (filter (\<lambda>p. \<not> isl (snd p)) ?ps)"
      by (rule length_foldl_store_distinct) simp
    then show ?thesis
      by (simp only: zip_outcomes_counts(2) [OF len] list.size add_0)
  qed
  have e: "workflows m name = Some cfg \<and>
    distinct (map (\<lambda>st. step_tool st @ ''_'' @ step_action st) (tools cfg)) \<Longrightarrow>
      metadata (fst (execute_workflow_v2 ec fmt m name ui ctx)) =
        Some [(''tool_mode'', PStr (ToolMode_value (tool_mode m))),
              (''total_steps'', PInt (int (length (tools cfg)))),
              (''completed_steps'',
                 PInt (int (length (filter (\<lambda>out. \<not> isl out) ?outs))))]"
    using d by (simp add: execute_workflow_v2_registered)
  show ?thesis using a b c e by blast
qed

text \<open>
  The amended claim C9 on the failing and the broken step of the workflow \<open>resilient\<close>,
  whose three keys are distinct.
\<close>

theorem failed_steps_are_stored_witness:
  "call_tool_smart flaky_call_tool sample_manager ''failing'' ''ping'' [] =
     (Inr \<lparr>ToolCallResult.success = False, result = PStr ''partial'',
            ToolCallResult.tool_name = ''failing'',
            ToolCallResult.mode_used = ToolMode.REAL_MCP,
            ToolCallResult.error = Some ''unavailable'',
            ToolCallResult.execution_time = Fin 0\<rparr>,
      sample_manager\<lparr>enhanced_tools := 1\<rparr>) \<and>
   fst (execute_step flaky_call_tool sample_format_2f ''2+2'' sample_manager [] []
          \<lparr>step_tool = ''failing'', step_action = ''ping'', step_parameters = None\<rparr>) =
     (sample_manager\<lparr>enhanced_tools := 1\<rparr>,
      [(''failing_ping'', PStr ''partial'')],
      [mark_done @ ''failing.ping (real_mcp) - 0.00s'']) \<and>
   call_tool_smart flaky_call_tool sample_manager ''broken'' ''ping'' [] =
     (Inl (OtherException ''connection lost''), sample_manager\<lparr>enhanced_tools := 1\<rparr>) \<and>
   fst (execute_step flaky_call_tool sample_format_2f ''2+2'' sample_manager [] []
          \<lparr>step_tool = ''broken'', step_action = ''ping'', step_parameters = None\<rparr>) =
     (sample_manager\<lparr>enhanced_tools := 1\<rparr>,
      [],
      [mark_failed @ ''broken.ping'' @ msg_step_failed @ ''connection lost'']) \<and>
   workflows sample_manager ''resilient'' \<noteq> None \<and>
   results (fst (execute_workflow_v2 flaky_call_tool sample_format_2f sample_manager
                   ''resilient'' ''2+2'' [])) =
     [(''failing_ping'', PStr ''partial''),
      (''calculator_calculate'', PDict [(''expression'', PStr ''1+1'')])] \<and>
   metadata (fst (execute_workflow_v2 flaky_call_tool sample_format_2f sample_manager
                    ''resilient'' ''2+2'' [])) =
     Some [(''tool_mode'', PStr ''hybrid''), (''total_steps'', PInt 3),
           (''completed_steps'', PInt 2)] \<and>
   distinct (map (\<lambda>st. step_tool st @ ''_'' @ step_action st)
      [\<lparr>step_tool = ''broken'', step_action = ''ping'', step_parameters = None\<rparr>,
       \<lparr>step_tool = ''failing'', step_action = ''ping'', step_parameters = None\<rparr>,
       \<lparr>step_tool = ''calculator'', step_action = ''calculate'',
         step_parameters = Some [(''expression'', PStr ''1+1'')]\<rparr>]) \<and>
   length (filter (\<lambda>out. \<not> isl out)
      (step_outcomes flaky_call_tool ''2+2'' sample_manager
         [\<lparr>step_tool = ''broken'', step_action = ''ping'', step_parameters = None\<rparr>,
          \<lparr>step_tool = ''failing'', step_action = ''ping'', step_parameters = None\<rparr>,
          \<lparr>step_tool = ''calculator'', step_action = ''calculate'',
            step_parameters = Some [(''expression'', PStr ''1+1'')]\<rparr>])) = 2"
proof -
  have en: "enhanced_tools sample_manager = 0"
    by (simp add: sample_manager_def MCPToolsManagerV2_init_def)
  have c1: "call_tool_smart flaky_call_tool sample_manager ''failing'' ''ping'' [] =
     (Inr \<lparr>ToolCallResult.success = False, result = PStr ''partial'',
            ToolCallResult.tool_name = ''failing'',
            ToolCallResult.mode_used = ToolMode.REAL_MCP,
            ToolCallResult.error = Some ''unavailable'',
            ToolCallResult.execution_time = Fin 0\<rparr>,
      sample_manager\<lparr>enhanced_tools := 1\<rparr>)"
    by (simp add: call_tool_smart_def flaky_call_tool_def mode_mapping_def en)
  have c2: "call_tool_smart flaky_call_tool sample_manager ''broken'' ''ping'' [] =
     (Inl (OtherException ''connection lost''), sample_manager\<lparr>enhanced_tools := 1\<rparr>)"
    by (simp add: call_tool_smart_def flaky_call_tool_def en)
  have p: "parameterize ''2+2'' [] = []"
    by (simp add: parameterize_def)
  have s1: "fst (execute_step flaky_call_tool sample_format_2f ''2+2'' sample_manager [] []
          \<lparr>step_tool = ''failing'', step_action = ''ping'', step_parameters = None\<rparr>) =
     (sample_manager\<lparr>enhanced_tools := 1\<rparr>,
      [(''failing_ping'', PStr ''partial'')],
      [mark_done @ ''failing.ping (real_mcp) - 0.00s''])"
    by (simp add: execute_step_def Let_def p c1 sample_format_2f_def)
  have s2: "fst (execute_step flaky_call_tool sample_format_2f ''2+2'' sample_manager [] []
          \<lparr>step_tool = ''broken'', step_action = ''ping'', step_parameters = None\<rparr>) =
     (sample_manager\<lparr>enhanced_tools := 1\<rparr>,
      [],
      [mark_failed @ ''broken.ping'' @ msg_step_failed @ ''connection lost''])"
    by (simp add: execute_step_def Let_def p c2)
  have w: "workflows sample_manager ''resilient'' \<noteq> None"
    by (simp add: wf_resilient)
  have r: "results (fst (execute_workflow_v2 flaky_call_tool sample_format_2f sample_manager
                   ''resilient'' ''2+2'' [])) =
     [(''failing_ping'', PStr ''partial''),
      (''calculator_calculate'', PDict [(''expression'', PStr ''1+1'')])]"
    by (simp add: resilient_run)
  have md: "metadata (fst (execute_workflow_v2 flaky_call_tool sample_format_2f sample_manager
                    ''resilient'' ''2+2'' [])) =
     Some [(''tool_mode'', PStr ''hybrid''), (''total_steps'', PInt 3),
           (''completed_steps'', PInt 2)]"
    by (simp add: resilient_run)
  have d: "distinct (map (\<lambda>st. step_tool st @ ''_'' @ step_action st)
      [\<lparr>step_tool = ''broken'', step_action = ''ping'', step_parameters = None\<rparr>,
       \<lparr>step_tool = ''failing'', step_action = ''ping'', step_parameters = None\<rparr>,
       \<lparr>step_tool = ''calculator'', step_action = ''calculate'',
         step_parameters = Some [(''expression'', PStr ''1+1'')]\<rparr>])"
    by simp
  have outs: "length (filter (\<lambda>out. \<not> isl out)
      (step_outcomes flaky_call_tool ''2+2'' sample_manager
         [\<lparr>step_tool = ''broken'', step_action = ''ping'', step_parameters = None\<rparr>,
          \<lparr>step_tool = ''failing'', step_action = ''ping'', step_parameters = None\<rparr>,
          \<lparr>step_tool = ''calculator'', step_action = ''calculate'',
            step_parameters = Some [(''expression'', PStr ''1+1'')]\<rparr>])) = 2"
    by (simp add: call_tool_smart_def flaky_call_tool_def echo_call_tool_def mode_mapping_def
        parameterize_def)
  show ?thesis
    using failed_steps_are_stored [of flaky_call_tool sample_manager
        "\<lparr>step_tool = ''failing'', step_action = ''ping'', step_parameters = None\<rparr>" "''2+2''"
        "\<lparr>ToolCallResult.success = False, result = PStr ''partial'',
            ToolCallResult.tool_name = ''failing'',
            ToolCallResult.mode_used = ToolMode.REAL_MCP,
            ToolCallResult.error = Some ''unavailable'',
            ToolCallResult.execution_time = Fin 0\<rparr>"
        "sample_manager\<lparr>enhanced_tools := 1\<rparr>" sample_format_2f "[]" "[]"
        sample_manager
        "\<lparr>step_tool = ''broken'', step_action = ''ping'', step_parameters = None\<rparr>"
        "OtherException ''connection lost''" "sample_manager\<lparr>enhanced_tools := 1\<rparr>"
        sample_manager "''resilient''"
        "\<lparr>tools =
           [\<lparr>step_tool = ''broken'', step_action = ''ping'', step_parameters = None\<rparr>,
            \<lparr>step_tool = ''failing'', step_action = ''ping'', step_parameters = None\<rparr>,
            \<lparr>step_tool = ''calculator'', step_action = ''calculate'',
              step_parameters = Some [(''expression'', PStr ''1+1'')]\<rparr>]\<rparr>" "[]"]
      c1 s1 c2 s2 w r md d outs
    by blast
qed

lemma wf_retry:
  "workflows sample_manager ''retry'' =
     Some \<lparr>tools =
           [\<lparr>step_tool = ''failing'', step_action = ''ping'', step_parameters = None\<rparr>,
            \<lparr>step_tool = ''failing'', step_action = ''ping'', step_parameters = None\<rparr>]\<rparr>"
  by (simp add: sample_manager_def MCPToolsManagerV2_init_def sample_super_def
      sample_workflows_def)

text \<open>
  Claim C9 as stated fails on the workflow \<open>retry\<close>: both steps return a result with
  \<open>success = False\<close> without raising, yet \<open>results\<close> has one entry and
  \<open>completed_steps\<close> is 1, not 2.
\<close>

theorem completed_steps_counts_counterexample:
  "step_outcomes flaky_call_tool ''2+2'' sample_manager
     [\<lparr>step_tool = ''failing'', step_action = ''ping'', step_parameters = None\<rparr>,
      \<lparr>step_tool = ''failing'', step_action = ''ping'', step_parameters = None\<rparr>] =
     [Inr \<lparr>ToolCallResult.success = False, result = PStr ''partial'',
            ToolCallResult.tool_name = ''failing'',
            ToolCallResult.mode_used = ToolMode.REAL_MCP,
            ToolCallResult.error = Some ''unavailable'',
            ToolCallResult.execution_time = Fin 0\<rparr>,
      Inr \<lparr>ToolCallResult.success = False, result = PStr ''partial'',
            ToolCallResult.tool_name = ''failing'',
            ToolCallResult.mode_used = ToolMode.REAL_MCP,
            ToolCallResult.error = Some ''unavailable'',
            ToolCallResult.execution_time = Fin 0\<rparr>] \<and>
   results (fst (execute_workflow_v2 flaky_call_tool sample_format_2f sample_manager
                   ''retry'' ''2+2'' [])) =
     [(''failing_ping'', PStr ''partial'')] \<and>
   metadata (fst (execute_workflow_v2 flaky_call_tool sample_format_2f sample_manager
                    ''retry'' ''2+2'' [])) =
     Some [(''tool_mode'', PStr ''hybrid''), (''total_steps'', PInt 2),
           (''completed_steps'', PInt 1)]"
  by (simp add: execute_workflow_v2_def wf_retry execute_step_def call_tool_smart_def
      flaky_call_tool_def mode_mapping_def parameterize_def Let_def)
     (simp add: sample_manager_def MCPToolsManagerV2_init_def)

section \<open>The module-level accessor: proofs\<close>

lemma init_tool_mode:
  "tool_mode (MCPToolsManagerV2_init base mk m) = m"
  by (simp add: MCPToolsManagerV2_init_def Let_def)

lemma init_enhanced_tools:
  "enhanced_tools (MCPToolsManagerV2_init base mk m) =
     mk (if m = ToolMode.REAL_MCP then ToolExecutionMode.REAL
         else if m = ToolMode.PLACEHOLDER then ToolExecutionMode.PLACEHOLDER
         else ToolExecutionMode.HYBRID)"
  by (simp add: MCPToolsManagerV2_init_def Let_def)

lemma initialize_tool_mode:
  "tool_mode (snd (initialize ini obj)) = tool_mode obj"
  by (auto simp: initialize_def split: prod.splits sum.splits py_exception.splits)

lemma initialize_enhanced_tools:
  "enhanced_tools (snd (initialize ini obj)) = snd (ini (enhanced_tools obj))"
  by (auto simp: initialize_def split: prod.splits sum.splits py_exception.splits)

lemma initialize_result:
  "fst (initialize ini obj) =
     (case fst (ini (enhanced_tools obj)) of
        Inr u \<Rightarrow> Inr ()
      | Inl e \<Rightarrow>
          if tool_mode obj = ToolMode.REAL_MCP
          then Inl (case e of ImportError msg \<Rightarrow> RuntimeError msg_real_mode_needs_mcp | _ \<Rightarrow> e)
          else Inr ())"
  by (auto simp: initialize_def split: prod.splits sum.splits py_exception.splits)

lemma get_again:
  "mcp_tools_manager_v2 st = Some ref \<Longrightarrow>
   get_mcp_tools_manager_v2 base mk ini st m = (Inr ref, st)"
  by (simp add: get_mcp_tools_manager_v2_def)

lemma get_all_again:
  "mcp_tools_manager_v2 st = Some ref \<Longrightarrow>
   get_all base mk ini st ms = (map (\<lambda>m. Inr ref) ms, st)"
  by (induction ms) (simp_all add: get_again)

lemma get_first:
  assumes "mcp_tools_manager_v2 st = None"
  shows "get_mcp_tools_manager_v2 base mk ini st m =
           ((case fst (initialize ini (MCPToolsManagerV2_init base mk m)) of
               Inl e \<Rightarrow> Inl e
             | Inr u \<Rightarrow> Inr (length (objects st))),
            st\<lparr>objects := objects st @ [snd (initialize ini (MCPToolsManagerV2_init base mk m))],
               mcp_tools_manager_v2 := Some (length (objects st))\<rparr>)"
  using assms
  by (cases "initialize ini (MCPToolsManagerV2_init base mk m)";
      cases "fst (initialize ini (MCPToolsManagerV2_init base mk m))")
     (auto simp: get_mcp_tools_manager_v2_def Let_def)

text \<open>
  Claim C10. On a module whose global is unset, the first call of
  \<^verbatim>\<open>get_mcp_tools_manager_v2\<close> creates exactly one manager with the requested mode,
  stores it in the global and initialises it: the stored object is the new manager as
  \<^verbatim>\<open>initialize\<close> leaves it, its enhanced tools are the freshly constructed ones after
  \<^verbatim>\<open>initialize_real_interface\<close> has run on them, and the call returns the object unless
  \<^verbatim>\<open>initialize\<close> raises (the initialisation failed and the mode is \<^verbatim>\<open>REAL_MCP\<close>).
  Every later call, whatever mode it asks for, returns that same object and changes
  nothing: no manager is constructed or initialised again.
\<close>

theorem accessor_is_singleton:
  assumes "mcp_tools_manager_v2 st = None"
  shows "case get_mcp_tools_manager_v2 base mk ini st m of
           (r, st1) \<Rightarrow>
             mcp_tools_manager_v2 st1 = Some (length (objects st)) \<and>
             objects st1 =
               objects st @ [snd (initialize ini (MCPToolsManagerV2_init base mk m))] \<and>
             tool_mode (objects st1 ! length (objects st)) = m \<and>
             enhanced_tools (objects st1 ! length (objects st)) =
               snd (ini (mk (if m = ToolMode.REAL_MCP then ToolExecutionMode.REAL
                             else if m = ToolMode.PLACEHOLDER then ToolExecutionMode.PLACEHOLDER
                             else ToolExecutionMode.HYBRID))) \<and>
             r = (case fst (ini (mk (if m = ToolMode.REAL_MCP then ToolExecutionMode.REAL
                             else if m = ToolMode.PLACEHOLDER then ToolExecutionMode.PLACEHOLDER
                             else ToolExecutionMode.HYBRID))) of
                    Inr u \<Rightarrow> Inr (length (objects st))
                  | Inl e \<Rightarrow>
                      if m = ToolMode.REAL_MCP
                      then Inl (case e of
                                  ImportError msg \<Rightarrow> RuntimeError msg_real_mode_needs_mcp
                                | _ \<Rightarrow> e)
                      else Inr (length (objects st))) \<and>
             (\<forall>ms. get_all base mk ini st1 ms =
                     (map (\<lambda>m'. Inr (length (objects st))) ms, st1))"
proof -
  let ?obj = "MCPToolsManagerV2_init base mk m"
  let ?st1 = "st\<lparr>objects := objects st @ [snd (initialize ini ?obj)],
                 mcp_tools_manager_v2 := Some (length (objects st))\<rparr>"
  have again: "\<forall>ms. get_all base mk ini ?st1 ms =
      (map (\<lambda>m'. Inr (length (objects st))) ms, ?st1)"
    by (simp add: get_all_again)
  have r: "(case fst (initialize ini ?obj) of Inl e \<Rightarrow> Inl e
            | Inr u \<Rightarrow> Inr (length (objects st))) =
      (case fst (ini (mk (if m = ToolMode.REAL_MCP then ToolExecutionMode.REAL
                             else if m = ToolMode.PLACEHOLDER then ToolExecutionMode.PLACEHOLDER
                             else ToolExecutionMode.HYBRID))) of
                    Inr u \<Rightarrow> Inr (length (objects st))
                  | Inl e \<Rightarrow>
                      if m = ToolMode.REAL_MCP
                      then Inl (case e of
                                  ImportError msg \<Rightarrow> RuntimeError msg_real_mode_needs_mcp
                                | _ \<Rightarrow> e)
                      else Inr (length (objects st)))"
    by (simp add: initialize_result init_enhanced_tools init_tool_mode split: sum.splits)
  show ?thesis
    using again r
    by (simp add: get_first [OF assms] initialize_tool_mode initialize_enhanced_tools
        init_tool_mode init_enhanced_tools)
qed

lemma fresh_unset: "mcp_tools_manager_v2 fresh_module = None"
  by (simp add: fresh_module_def)

lemma first_call_failing:
  "get_mcp_tools_manager_v2 sample_super (\<lambda>enhanced_mode. 0) failing_initialize fresh_module
     ToolMode.REAL_MCP =
   (Inl (OtherException ''no server''),
    \<lparr>objects = [(MCPToolsManagerV2_init sample_super (\<lambda>enhanced_mode. 0) ToolMode.REAL_MCP)
                  \<lparr>enhanced_tools := 1\<rparr>],
     mcp_tools_manager_v2 = Some 0\<rparr>)"
  by (simp add: get_mcp_tools_manager_v2_def fresh_module_def initialize_def
      failing_initialize_def MCPToolsManagerV2_init_def Let_def)

lemma first_call_counting:
  "get_mcp_tools_manager_v2 sample_super (\<lambda>enhanced_mode. 0) counting_initialize fresh_module
     ToolMode.PLACEHOLDER =
   (Inr 0,
    \<lparr>objects = [(MCPToolsManagerV2_init sample_super (\<lambda>enhanced_mode. 0) ToolMode.PLACEHOLDER)
                  \<lparr>enhanced_tools := 1\<rparr>],
     mcp_tools_manager_v2 = Some 0\<rparr>)"
  by (simp add: get_mcp_tools_manager_v2_def fresh_module_def initialize_def
      counting_initialize_def MCPToolsManagerV2_init_def Let_def)

text \<open>
  Claim C10 on the fresh module: a first call in mode \<^verbatim>\<open>REAL_MCP\<close> whose
  initialisation raises, and a first call in mode \<^verbatim>\<open>PLACEHOLDER\<close> whose initialisation
  succeeds; in both the stored manager has been initialised exactly once.
\<close>

theorem accessor_is_singleton_witness:
  "mcp_tools_manager_v2 fresh_module = None \<and>
   fst (get_all sample_super (\<lambda>enhanced_mode. 0) failing_initialize fresh_module
          [ToolMode.REAL_MCP, ToolMode.HYBRID, ToolMode.PLACEHOLDER]) =
     [Inl (OtherException ''no server''), Inr 0, Inr 0] \<and>
   objects (snd (get_all sample_super (\<lambda>enhanced_mode. 0) failing_initialize
          fresh_module [ToolMode.REAL_MCP, ToolMode.HYBRID, ToolMode.PLACEHOLDER])) =
     [(MCPToolsManagerV2_init sample_super (\<lambda>enhanced_mode. 0) ToolMode.REAL_MCP)
        \<lparr>enhanced_tools := 1\<rparr>] \<and>
   fst (get_all sample_super (\<lambda>enhanced_mode. 0) counting_initialize fresh_module
          [ToolMode.PLACEHOLDER, ToolMode.REAL_MCP, ToolMode.HYBRID]) = [Inr 0, Inr 0, Inr 0] \<and>
   objects (snd (get_all sample_super (\<lambda>enhanced_mode. 0) counting_initialize
          fresh_module [ToolMode.PLACEHOLDER, ToolMode.REAL_MCP, ToolMode.HYBRID])) =
     [(MCPToolsManagerV2_init sample_super (\<lambda>enhanced_mode. 0) ToolMode.PLACEHOLDER)
        \<lparr>enhanced_tools := 1\<rparr>]"
proof -
  have a: "fst (get_all sample_super (\<lambda>enhanced_mode. 0) failing_initialize fresh_module
          [ToolMode.REAL_MCP, ToolMode.HYBRID, ToolMode.PLACEHOLDER]) =
     [Inl (OtherException ''no server''), Inr 0, Inr 0]"
    "objects (snd (get_all sample_super (\<lambda>enhanced_mode. 0) failing_initialize
          fresh_module [ToolMode.REAL_MCP, ToolMode.HYBRID, ToolMode.PLACEHOLDER])) =
     [(MCPToolsManagerV2_init sample_super (\<lambda>enhanced_mode. 0) ToolMode.REAL_MCP)
        \<lparr>enhanced_tools := 1\<rparr>]"
    by (simp_all add: first_call_failing get_again)
  have b: "fst (get_all sample_super (\<lambda>enhanced_mode. 0) counting_initialize fresh_module
          [ToolMode.PLACEHOLDER, ToolMode.REAL_MCP, ToolMode.HYBRID]) = [Inr 0, Inr 0, Inr 0]"
    "objects (snd (get_all sample_super (\<lambda>enhanced_mode. 0) counting_initialize
          fresh_module [ToolMode.PLACEHOLDER, ToolMode.REAL_MCP, ToolMode.HYBRID])) =
     [(MCPToolsManagerV2_init sample_super (\<lambda>enhanced_mode. 0) ToolMode.PLACEHOLDER)
        \<lparr>enhanced_tools := 1\<rparr>]"
    by (simp_all add: first_call_counting get_again)
  show ?thesis
    using accessor_is_singleton [OF fresh_unset, where base = sample_super
        and mk = "\<lambda>enhanced_mode. 0" and ini = failing_initialize and m = ToolMode.REAL_MCP]
      accessor_is_singleton [OF fresh_unset, where base = sample_super
        and mk = "\<lambda>enhanced_mode. 0" and ini = counting_initialize and m = ToolMode.PLACEHOLDER]
      fresh_unset a b
    by blast
qed

end
